theory Spec2Isabelle
  imports Complex_Main
begin

section \<open>The deferred-work queue processor (zerver/worker/deferred\_work.py)\<close>

text \<open>
  A shallow embedding of \<^verbatim>\<open>DeferredWorker.consume\<close>. The handler is a state
  transformer that may raise: every statement of the source is a step on a \<open>world\<close>
  (the database tables the handler reads and writes, the clock position, and the trace of
  everything the handler does to its collaborators), and every raise of the source is the
  value \<open>Raise\<close>. The collaborators whose code is not part of the worker module (the
  clocks, the model lookups, the business operations) are fields of an environment.
\<close>

subsection \<open>Job events\<close>

text \<open>
  An event is a Python \<^verbatim>\<open>dict[str, Any]\<close> decoded from JSON. The values are the JSON
  values the enqueuers use: integers, strings, lists and null.
\<close>

datatype val = VInt int | VStr string | VList "val list" | VNone

type_synonym event = "string \<rightharpoonup> val"

text \<open>
  The exceptions of the source. \<open>PushNotificationBouncerRetryLaterError\<close> is the only one the
  module names; \<open>Exception\<close> stands for any other subclass of Python's \<^verbatim>\<open>Exception\<close>
  raised by a collaborator.
\<close>

datatype exn =
    KeyError string
  | TypeError string
  | DoesNotExist string
  | PushNotificationBouncerRetryLaterError
  | Exception string

datatype 'a result = Ok 'a | Raise exn

subsection \<open>Database rows\<close>

record realm =
  realm_id :: int
  string_id :: string

record user_profile =
  up_id :: int
  up_realm :: realm
  default_language :: string

record stream =
  stream_realm_id :: int

record message =
  msg_id :: int
  msg_realm_id :: int
  msg_recipient_id :: int

record user_message =
  um_message_id :: int
  um_flags :: int

text \<open>
  Modelled from the spec: the status enumeration of the Job Status Record (the
  \<^verbatim>\<open>RealmExport\<close> model class is not part of the worker module, which names only
  \<^verbatim>\<open>RealmExport.REQUESTED\<close> and \<^verbatim>\<open>RealmExport.FAILED\<close>). The spec's data model lists
  the states REQUESTED, IN\_PROGRESS, FAILED and COMPLETED.
\<close>

datatype export_status = REQUESTED | IN_PROGRESS | FAILED | COMPLETED

datatype export_type = EXPORT_PUBLIC | EXPORT_OTHER nat

record realm_export =
  export_realm :: int
  export_kind :: export_type
  acting_user :: int
  status :: export_status
  date_requested :: val
  date_failed :: "real option"

record audit_log =
  extra_data :: "string \<rightharpoonup> val"

subsection \<open>The trace of effects\<close>

text \<open>
  A call to a collaborator is recorded with its arguments. \<open>Marked c ids\<close> records one
  atomic block of the batch loop: the cursor it selected above and the message ids it
  selected and marked.
\<close>

datatype call =
    Mkdtemp string
  | DoMarkStreamMessagesAsRead int val
  | ClearPushDeviceTokens val
  | ExportRealmWrapper int string nat bool
  | NotifyRealmExport realm
  | GetSystemBot int
  | InternalSendPrivateMessage int int string
  | HandleReuploadEmojisEvent int
  | ReactivateUserIfSoftDeactivated int
  | SendServerDataToPushBouncer bool

datatype level = INFO | WARNING | ERROR | EXCEPTION

datatype arg = AInt int | AStr string | AVal val | ASeconds real

datatype effect =
    Log level string "arg list"
  | Publish string event
  | Called call
  | Marked int "int list"

record world =
  ticks :: nat
  trace :: "effect list"
  messages :: "message list"
  user_messages :: "user_message list"
  realm_exports :: "int \<rightharpoonup> realm_export"
  audit_logs :: "int \<rightharpoonup> audit_log"
  next_export_id :: int
  failed_tries :: nat

text \<open>
  The environment: the worker's own attributes (\<open>queue_name\<close>, \<open>threaded\<close>) and the
  collaborators. A clock is a function of the number of clock readings taken so far, so
  that every sequence of readings is possible. \<open>raises\<close> says which collaborator calls
  raise. \<open>export_realm_wrapper\<close> also says how the export operation leaves the status
  record it was given. \<open>flags_read\<close> and \<open>where_unread\<close> are the \<^verbatim>\<open>UserMessage\<close> flag mask and
  predicate, which the module imports.
\<close>

record env =
  queue_name :: string
  threaded :: bool
  time_time :: "nat \<Rightarrow> real"
  perf_counter :: "nat \<Rightarrow> real"
  timezone_now :: "nat \<Rightarrow> real"
  to_int :: "val \<Rightarrow> exn + int"
  get_user_profile_by_id :: "val \<Rightarrow> exn + user_profile"
  get_stream :: "val \<Rightarrow> exn + stream"
  get_realm :: "val \<Rightarrow> exn + realm"
  raises :: "call \<Rightarrow> exn option"
  mark_count :: "int \<Rightarrow> val \<Rightarrow> int"
  mkdtemp :: "string \<Rightarrow> string"
  system_bot :: "int \<Rightarrow> int"
  gettext :: "string \<Rightarrow> string \<Rightarrow> string"
  format_link :: "string \<Rightarrow> string \<Rightarrow> string"
  export_realm_wrapper :: "int \<Rightarrow> realm_export \<Rightarrow> realm_export"
  flags_read :: int
  where_unread :: "user_message \<Rightarrow> bool"
  MAX_REQUEST_RETRIES :: nat

subsection \<open>Statements as state transformers\<close>

type_synonym 'a prog = "world \<Rightarrow> 'a result \<times> world"

definition ret :: "'a \<Rightarrow> 'a prog" where
  "ret x w = (Ok x, w)"

definition throw :: "exn \<Rightarrow> 'a prog" where
  "throw e w = (Raise e, w)"

definition bnd :: "'a prog \<Rightarrow> ('a \<Rightarrow> 'b prog) \<Rightarrow> 'b prog" where
  "bnd m f w = (case m w of (Ok x, w') \<Rightarrow> f x w' | (Raise e, w') \<Rightarrow> (Raise e, w'))"

definition lift :: "exn + 'a \<Rightarrow> 'a prog" where
  "lift r = (case r of Inl e \<Rightarrow> throw e | Inr x \<Rightarrow> ret x)"

definition getitem :: "event \<Rightarrow> string \<Rightarrow> val prog" where
  "getitem ev k = (case ev k of None \<Rightarrow> throw (KeyError k) | Some v \<Rightarrow> ret v)"

text \<open>
  A value used as a database key or compared with one: a JSON integer is itself; what the
  database layer makes of any other value is the collaborator \<open>to_int\<close>.
\<close>

definition int_val :: "env \<Rightarrow> val \<Rightarrow> exn + int" where
  "int_val en v = (case v of VInt n \<Rightarrow> Inr n | _ \<Rightarrow> to_int en v)"

definition int_of :: "env \<Rightarrow> val \<Rightarrow> int prog" where
  "int_of en v = lift (int_val en v)"

text \<open>Python's \<^verbatim>\<open>dict.get(key, default)\<close>.\<close>

definition get_default :: "(string \<rightharpoonup> val) \<Rightarrow> string \<Rightarrow> val \<Rightarrow> val" where
  "get_default d k dflt = (case d k of None \<Rightarrow> dflt | Some v \<Rightarrow> v)"

definition iterate :: "val \<Rightarrow> val list prog" where
  "iterate v = (case v of
       VList xs \<Rightarrow> ret xs
     | VStr s \<Rightarrow> ret (map (\<lambda>c. VStr [c]) s)
     | VInt n \<Rightarrow> throw (TypeError ''not iterable'')
     | VNone \<Rightarrow> throw (TypeError ''not iterable''))"

definition logger :: "level \<Rightarrow> string \<Rightarrow> arg list \<Rightarrow> unit prog" where
  "logger lv fmt args w = (Ok (), w\<lparr>trace := trace w @ [Log lv fmt args]\<rparr>)"

definition invoke :: "env \<Rightarrow> call \<Rightarrow> unit prog" where
  "invoke en c w =
     (let w' = w\<lparr>trace := trace w @ [Called c]\<rparr>
      in case raises en c of None \<Rightarrow> (Ok (), w') | Some e \<Rightarrow> (Raise e, w'))"

definition read_clock :: "(nat \<Rightarrow> real) \<Rightarrow> real prog" where
  "read_clock clock w = (Ok (clock (ticks w)), w\<lparr>ticks := Suc (ticks w)\<rparr>)"

definition queue_json_publish_rollback_unsafe :: "string \<Rightarrow> event \<Rightarrow> unit prog" where
  "queue_json_publish_rollback_unsafe q ev w = (Ok (), w\<lparr>trace := trace w @ [Publish q ev]\<rparr>)"

definition attempt :: "'a prog \<Rightarrow> 'a result prog" where
  "attempt m w = (case m w of (r, w') \<Rightarrow> (Ok r, w'))"

fun for_each :: "'a list \<Rightarrow> ('a \<Rightarrow> unit prog) \<Rightarrow> unit prog" where
  "for_each [] body = ret ()"
| "for_each (x # xs) body = bnd (body x) (\<lambda>_. for_each xs body)"

text \<open>
  Python's \<^verbatim>\<open>%d\<close> applied to a float truncates towards zero. The clock readings are
  floats in the source and reals here; the rounding of the float subtraction is not modelled.
\<close>

definition percent_d :: "real \<Rightarrow> int" where
  "percent_d x = (if 0 \<le> x then \<lfloor>x\<rfloor> else \<lceil>x\<rceil>)"

subsection \<open>mark\_stream\_messages\_as\_read (lines 50-65)\<close>

definition mark_stream_messages_as_read :: "env \<Rightarrow> event \<Rightarrow> unit prog" where
  "mark_stream_messages_as_read en event =
     bnd (getitem event ''user_profile_id'') (\<lambda>uid.
     bnd (lift (get_user_profile_by_id en uid)) (\<lambda>user_profile.
     bnd (getitem event ''stream_recipient_ids'') (\<lambda>rids.
     bnd (logger INFO ''Marking messages as read for user %s, stream_recipient_ids %s''
            [AInt (up_id user_profile), AVal rids]) (\<lambda>_.
     bnd (iterate rids) (\<lambda>xs.
     for_each xs (\<lambda>recipient_id.
       bnd (invoke en (DoMarkStreamMessagesAsRead (up_id user_profile) recipient_id)) (\<lambda>_.
       logger INFO ''Marked %s messages as read for user %s, stream_recipient_id %s''
         [AInt (mark_count en (up_id user_profile) recipient_id),
          AInt (up_id user_profile), AVal recipient_id])))))))"

subsection \<open>mark\_stream\_messages\_as\_read\_for\_everyone (lines 66-109)\<close>

definition batch_size :: nat where
  "batch_size = 50"

text \<open>The query of lines 79-88: filter, order by id, slice, project to the id.\<close>

definition in_stream :: "int \<Rightarrow> int \<Rightarrow> message \<Rightarrow> bool" where
  "in_stream rlm rid m \<longleftrightarrow> msg_realm_id m = rlm \<and> msg_recipient_id m = rid"

definition select_batch :: "message list \<Rightarrow> int \<Rightarrow> int \<Rightarrow> int \<Rightarrow> int list" where
  "select_batch ms rlm rid min_id =
     map msg_id (take batch_size (sort_key msg_id
       (filter (\<lambda>m. in_stream rlm rid m \<and> min_id < msg_id m) ms)))"

text \<open>The update of lines 89-91: set the read flag on the unread rows of the batch.\<close>

definition mark_read :: "env \<Rightarrow> int list \<Rightarrow> user_message list \<Rightarrow> user_message list" where
  "mark_read en ids ums =
     map (\<lambda>um. if um_message_id um \<in> set ids \<and> where_unread en um
                then um\<lparr>um_flags := or (um_flags um) (flags_read en)\<rparr> else um) ums"

definition commit_batch :: "env \<Rightarrow> int \<Rightarrow> int list \<Rightarrow> world \<Rightarrow> world" where
  "commit_batch en min_id ids w =
     w\<lparr>user_messages := mark_read en ids (user_messages w),
       trace := trace w @ [Marked min_id ids]\<rparr>"

definition tick :: "world \<Rightarrow> world" where
  "tick w = w\<lparr>ticks := Suc (ticks w)\<rparr>"

definition remaining :: "message list \<Rightarrow> int \<Rightarrow> int \<Rightarrow> int \<Rightarrow> nat" where
  "remaining ms rlm rid min_id =
     length (filter (\<lambda>m. in_stream rlm rid m \<and> min_id < msg_id m) ms)"

lemma select_batch_length:
  "length (select_batch ms rlm rid c) =
     min batch_size (length (filter (\<lambda>m. in_stream rlm rid m \<and> c < msg_id m) ms))"
  by (simp add: select_batch_def)

lemma select_batch_subset:
  "set (select_batch ms rlm rid c) \<subseteq>
     msg_id ` {m \<in> set ms. in_stream rlm rid m \<and> c < msg_id m}"
proof -
  have "set (take batch_size (sort_key msg_id (filter (\<lambda>m. in_stream rlm rid m \<and> c < msg_id m) ms)))
          \<subseteq> {m \<in> set ms. in_stream rlm rid m \<and> c < msg_id m}"
    using set_take_subset [of batch_size "sort_key msg_id (filter (\<lambda>m. in_stream rlm rid m \<and> c < msg_id m) ms)"]
    by auto
  then show ?thesis
    unfolding select_batch_def by auto
qed

lemma remaining_decreases:
  assumes "\<not> length (select_batch ms rlm rid c) < batch_size"
  shows "remaining ms rlm rid (last (select_batch ms rlm rid c)) < remaining ms rlm rid c"
proof -
  let ?ids = "select_batch ms rlm rid c"
  from assms have ne: "?ids \<noteq> []"
    by (auto simp: batch_size_def)
  then have "last ?ids \<in> set ?ids"
    by simp
  with select_batch_subset obtain m where
    m: "m \<in> set ms" "in_stream rlm rid m" "c < msg_id m" "msg_id m = last ?ids"
    by fastforce
  let ?old = "filter (\<lambda>x. in_stream rlm rid x \<and> c < msg_id x) ms"
  have "filter (\<lambda>x. in_stream rlm rid x \<and> last ?ids < msg_id x) ms
          = filter (\<lambda>x. last ?ids < msg_id x) ?old"
    using m(3,4) by (auto intro: filter_cong)
  moreover have "length (filter (\<lambda>x. last ?ids < msg_id x) ?old) < length ?old"
    by (rule length_filter_less [of m]) (use m in auto)
  ultimately have "length (filter (\<lambda>x. in_stream rlm rid x \<and> last ?ids < msg_id x) ms)
          < length ?old"
    by simp
  then show ?thesis
    by (simp add: remaining_def)
qed

text \<open>
  The loop of lines 77-104. One iteration commits one batch; the loop ends when the batch
  is short (line 93) or when more than 30 seconds have passed since \<open>start_time\<close>, in
  which case the event is published again with \<open>min_id\<close> set to the cursor (line 103).
  The result is \<open>total_messages\<close>.
\<close>

function mark_loop ::
  "env \<Rightarrow> event \<Rightarrow> int \<Rightarrow> int \<Rightarrow> real \<Rightarrow> int \<Rightarrow> nat \<Rightarrow> world \<Rightarrow> nat result \<times> world" where
  "mark_loop en event rlm rid start_time min_id total_messages w =
     (let msgs = select_batch (messages w) rlm rid min_id;
          w1 = commit_batch en min_id msgs w;
          total = total_messages + length msgs
      in if length msgs < batch_size then (Ok total, w1)
         else if perf_counter en (ticks w1) - start_time > 30
         then bnd (queue_json_publish_rollback_unsafe ''deferred_work''
                     (event(''min_id'' \<mapsto> VInt (last msgs))))
                (\<lambda>_. ret total) (tick w1)
         else mark_loop en event rlm rid start_time (last msgs) total (tick w1))"
  by pat_completeness auto
termination
proof (relation "measure (\<lambda>(en, event, rlm, rid, start_time, min_id, total, w).
                   remaining (messages w) rlm rid min_id)")
  show "wf (measure (\<lambda>(en, event, rlm, rid, start_time, min_id, total, w).
              remaining (messages w) rlm rid min_id))"
    by simp
next
  fix en :: env and event :: event and rlm rid :: int and start_time :: real
    and min_id :: int and total_messages :: nat and w :: world
    and msgs w1 total
  assume a: "msgs = select_batch (messages w) rlm rid min_id"
    "w1 = commit_batch en min_id msgs w" "\<not> length msgs < batch_size"
  have "messages (tick w1) = messages w"
    by (simp add: tick_def commit_batch_def a(2))
  with remaining_decreases [of "messages w" rlm rid min_id] a
  show "((en, event, rlm, rid, start_time, last msgs, total, tick w1),
         (en, event, rlm, rid, start_time, min_id, total_messages, w))
        \<in> measure (\<lambda>(en, event, rlm, rid, start_time, min_id, total, w).
              remaining (messages w) rlm rid min_id)"
    by simp
qed

definition mark_stream_messages_as_read_for_everyone :: "env \<Rightarrow> event \<Rightarrow> unit prog" where
  "mark_stream_messages_as_read_for_everyone en event =
     bnd (getitem event ''stream_recipient_id'') (\<lambda>recipient.
     bnd (logger INFO ''Marking messages as read for all users, stream_recipient_id %s''
            [AVal recipient]) (\<lambda>_.
     bnd (lift (get_stream en recipient)) (\<lambda>stream.
     bnd (read_clock (perf_counter en)) (\<lambda>start_time.
     bnd (int_of en recipient) (\<lambda>rid.
     bnd (int_of en (get_default event ''min_id'' (VInt 0))) (\<lambda>min_id.
     bnd (mark_loop en event (stream_realm_id stream) rid start_time min_id 0) (\<lambda>total_messages.
     logger INFO ''Marked %s messages as read for all users, stream_recipient_id %s''
       [AInt (int total_messages), AVal recipient])))))))"

subsection \<open>clear\_push\_device\_tokens (lines 110-125)\<close>

text \<open>
  Modelled from the spec: \<^verbatim>\<open>retry_event\<close> of \<^verbatim>\<open>zerver.lib.queue\<close>, which is not part of
  the worker module. The spec's Retry Policy Engine re-submits the same job event to the
  queue for a later attempt, up to a maximum attempt count maintained by the queueing
  layer; when the maximum is reached it invokes the terminal-failure handler supplied by the
  caller, and retries no further. \<open>failed_tries\<close> is the queueing layer's count of the failed
  attempts of the event being consumed.
\<close>

definition retry_event :: "env \<Rightarrow> string \<Rightarrow> event \<Rightarrow> (event \<Rightarrow> unit prog) \<Rightarrow> unit prog" where
  "retry_event en q event failure_processor w =
     (let w' = w\<lparr>failed_tries := Suc (failed_tries w)\<rparr>
      in if MAX_REQUEST_RETRIES en \<le> failed_tries w' then failure_processor event w'
         else queue_json_publish_rollback_unsafe q event w')"

definition failure_processor :: "event \<Rightarrow> unit prog" where
  "failure_processor event =
     bnd (getitem event ''user_profile_id'') (\<lambda>uid.
     logger WARNING ''Maximum retries exceeded for trigger:%s event:clear_push_device_tokens''
       [AVal uid])"

definition clear_push_device_tokens :: "env \<Rightarrow> event \<Rightarrow> unit prog" where
  "clear_push_device_tokens en event =
     bnd (getitem event ''user_profile_id'') (\<lambda>uid.
     bnd (logger INFO ''Clearing push device tokens for user_profile_id %s'' [AVal uid]) (\<lambda>_.
     bnd (attempt (invoke en (ClearPushDeviceTokens uid))) (\<lambda>r.
     case r of
       Ok _ \<Rightarrow> ret ()
     | Raise PushNotificationBouncerRetryLaterError \<Rightarrow>
         retry_event en (queue_name en) event failure_processor
     | Raise e \<Rightarrow> throw e)))"

subsection \<open>realm\_export (lines 126-211)\<close>

definition get_realm_export :: "int \<Rightarrow> realm_export prog" where
  "get_realm_export k w =
     (case realm_exports w k of
        None \<Rightarrow> (Raise (DoesNotExist ''RealmExport''), w)
      | Some row \<Rightarrow> (Ok row, w))"

definition get_audit_log :: "int \<Rightarrow> audit_log prog" where
  "get_audit_log k w =
     (case audit_logs w k of
        None \<Rightarrow> (Raise (DoesNotExist ''RealmAuditLog''), w)
      | Some row \<Rightarrow> (Ok row, w))"

definition create_realm_export :: "realm_export \<Rightarrow> int prog" where
  "create_realm_export row w =
     (Ok (next_export_id w),
      w\<lparr>realm_exports := (realm_exports w)(next_export_id w \<mapsto> row),
        next_export_id := next_export_id w + 1\<rparr>)"

definition save_extra_data :: "int \<Rightarrow> (string \<rightharpoonup> val) \<Rightarrow> unit prog" where
  "save_extra_data k d w = (Ok (), w\<lparr>audit_logs := (audit_logs w)(k \<mapsto> \<lparr>extra_data = d\<rparr>)\<rparr>)"

definition delete_audit_log :: "int \<Rightarrow> unit prog" where
  "delete_audit_log k w = (Ok (), w\<lparr>audit_logs := (audit_logs w)(k := None)\<rparr>)"

definition save_realm_export :: "int \<Rightarrow> realm_export \<Rightarrow> unit prog" where
  "save_realm_export k row w = (Ok (), w\<lparr>realm_exports := (realm_exports w)(k \<mapsto> row)\<rparr>)"

text \<open>
  Lines 132-150: the status record is looked up by \<open>realm_export_id\<close>, or, for an event
  queued before the \<^verbatim>\<open>RealmExport\<close> model existed, through the audit-log row, creating the
  record when that row does not point to one. The result is the audit-log key
  (\<open>export_event\<close>, \<open>None\<close> on the first path), the key of the record and the record.
\<close>

definition load_export_row ::
  "env \<Rightarrow> event \<Rightarrow> user_profile \<Rightarrow> (int option \<times> int \<times> realm_export) prog" where
  "load_export_row en event user_profile =
     (if event ''realm_export_id'' \<noteq> None then
        bnd (getitem event ''realm_export_id'') (\<lambda>v.
        bnd (int_of en v) (\<lambda>k.
        bnd (get_realm_export k) (\<lambda>export_row.
        ret (None, k, export_row))))
      else
        bnd (getitem event ''id'') (\<lambda>v.
        bnd (int_of en v) (\<lambda>log_id.
        bnd (get_audit_log log_id) (\<lambda>export_event.
        if get_default (extra_data export_event) ''export_row_id'' VNone \<noteq> VNone then
          bnd (getitem (extra_data export_event) ''export_row_id'') (\<lambda>v'.
          bnd (int_of en v') (\<lambda>k.
          bnd (get_realm_export k) (\<lambda>export_row.
          ret (Some log_id, k, export_row))))
        else
          bnd (getitem event ''time'') (\<lambda>tm.
          let export_row = \<lparr>export_realm = realm_id (up_realm user_profile),
                            export_kind = EXPORT_PUBLIC,
                            acting_user = up_id user_profile,
                            status = REQUESTED,
                            date_requested = tm,
                            date_failed = None\<rparr>
          in bnd (create_realm_export export_row) (\<lambda>k.
             bnd (save_extra_data log_id [''export_row_id'' \<mapsto> VInt k]) (\<lambda>_.
             ret (Some log_id, k, export_row))))))))"

text \<open>
  The export operation (lines 171-176) is a collaborator: the call is recorded, the
  status record is left as \<open>export_realm_wrapper\<close> says, and the call raises when
  \<open>raises\<close> says so.
\<close>

definition run_export :: "env \<Rightarrow> int \<Rightarrow> realm_export \<Rightarrow> string \<Rightarrow> unit prog" where
  "run_export en k export_row output_dir =
     bnd (save_realm_export k (export_realm_wrapper en k export_row)) (\<lambda>_.
     invoke en (ExportRealmWrapper k output_dir (if threaded en then 1 else 6) True))"

text \<open>
  A handler either falls through to the end of \<^verbatim>\<open>consume\<close> or leaves it by
  \<^verbatim>\<open>return\<close> (lines 161 and 185).
\<close>

datatype flow = Continue | Return

text \<open>
  Lines 152-211, the state machine on the loaded record: the redelivery short-circuit
  (lines 152-161), the export with its exception handler (lines 170-185) and the
  notifications after a successful export (lines 187-211).
\<close>

fun export_state_machine ::
  "env \<Rightarrow> real \<Rightarrow> string \<Rightarrow> user_profile \<Rightarrow> int option \<times> int \<times> realm_export \<Rightarrow> flow prog" where
  "export_state_machine en start output_dir user_profile (export_event, k, export_row) =
    (let realm = up_realm user_profile in
     if status export_row \<noteq> REQUESTED then
       bnd (logger ERROR
              ''Marking export for realm %s as failed due to retry -- possible OOM during export?''
              [AStr (string_id realm)]) (\<lambda>_.
       bnd (read_clock (timezone_now en)) (\<lambda>now.
       bnd (save_realm_export k (export_row\<lparr>status := FAILED, date_failed := Some now\<rparr>)) (\<lambda>_.
       bnd (invoke en (NotifyRealmExport realm)) (\<lambda>_.
       ret Return))))
     else
       bnd (logger INFO
              ''Starting realm export for realm %s into %s, initiated by user_profile_id %s''
              [AStr (string_id realm), AStr output_dir, AInt (up_id user_profile)]) (\<lambda>_.
       bnd (attempt (run_export en k export_row output_dir)) (\<lambda>r.
       case r of
         Raise e \<Rightarrow>
           bnd (read_clock (time_time en)) (\<lambda>t.
           bnd (logger EXCEPTION ''Data export for %s failed after %s''
                  [AStr (string_id realm), ASeconds (t - start)]) (\<lambda>_.
           bnd (invoke en (NotifyRealmExport realm)) (\<lambda>_.
           ret Return)))
       | Ok _ \<Rightarrow>
           bnd (case export_event of Some log_id \<Rightarrow> delete_audit_log log_id | None \<Rightarrow> ret ()) (\<lambda>_.
           let content = format_link en
                 (gettext en (default_language user_profile)
                    ''Your data export is complete. [View and download exports]({export_settings_link}).'')
                 ''/#organization/data-exports-admin'' in
           bnd (invoke en (GetSystemBot (realm_id realm))) (\<lambda>_.
           bnd (invoke en (InternalSendPrivateMessage (system_bot en (realm_id realm))
                             (up_id user_profile) content)) (\<lambda>_.
           bnd (invoke en (NotifyRealmExport realm)) (\<lambda>_.
           bnd (read_clock (time_time en)) (\<lambda>t.
           bnd (logger INFO ''Completed data export for %s in %s''
                  [AStr (string_id realm), ASeconds (t - start)]) (\<lambda>_.
           ret Continue)))))))))"

definition realm_export :: "env \<Rightarrow> event \<Rightarrow> real \<Rightarrow> flow prog" where
  "realm_export en event start =
     bnd (invoke en (Mkdtemp ''zulip-export-'')) (\<lambda>_.
     bnd (getitem event ''user_profile_id'') (\<lambda>uid.
     bnd (lift (get_user_profile_by_id en uid)) (\<lambda>user_profile.
     bnd (load_export_row en event user_profile)
       (export_state_machine en start (mkdtemp en ''zulip-export-'') user_profile))))"

subsection \<open>The remaining handlers (lines 212-230)\<close>

definition reupload_realm_emoji :: "env \<Rightarrow> event \<Rightarrow> unit prog" where
  "reupload_realm_emoji en event =
     bnd (getitem event ''realm_id'') (\<lambda>v.
     bnd (lift (get_realm en v)) (\<lambda>realm.
     bnd (logger INFO ''Processing reupload_realm_emoji event for realm %s''
            [AInt (realm_id realm)]) (\<lambda>_.
     invoke en (HandleReuploadEmojisEvent (realm_id realm)))))"

definition soft_reactivate :: "env \<Rightarrow> event \<Rightarrow> unit prog" where
  "soft_reactivate en event =
     bnd (getitem event ''user_profile_id'') (\<lambda>uid.
     bnd (logger INFO ''Starting soft reactivation for user_profile_id %s'' [AVal uid]) (\<lambda>_.
     bnd (lift (get_user_profile_by_id en uid)) (\<lambda>user_profile.
     invoke en (ReactivateUserIfSoftDeactivated (up_id user_profile)))))"

definition push_bouncer_update_for_realm :: "env \<Rightarrow> event \<Rightarrow> unit prog" where
  "push_bouncer_update_for_realm en event =
     bnd (getitem event ''realm_id'') (\<lambda>rlm.
     bnd (logger INFO ''Updating push bouncer with metadata on behalf of realm %s''
            [AVal rlm]) (\<lambda>_.
     invoke en (SendServerDataToPushBouncer False)))"

subsection \<open>The dispatcher (lines 48-237)\<close>

definition falls_through :: "unit prog \<Rightarrow> flow prog" where
  "falls_through m = bnd m (\<lambda>_. ret Continue)"

definition handler :: "env \<Rightarrow> event \<Rightarrow> real \<Rightarrow> val \<Rightarrow> flow prog" where
  "handler en event start ty =
     (if ty = VStr ''mark_stream_messages_as_read'' then
        falls_through (mark_stream_messages_as_read en event)
      else if ty = VStr ''mark_stream_messages_as_read_for_everyone'' then
        falls_through (mark_stream_messages_as_read_for_everyone en event)
      else if ty = VStr ''clear_push_device_tokens'' then
        falls_through (clear_push_device_tokens en event)
      else if ty = VStr ''realm_export'' then
        realm_export en event start
      else if ty = VStr ''reupload_realm_emoji'' then
        falls_through (reupload_realm_emoji en event)
      else if ty = VStr ''soft_reactivate'' then
        falls_through (soft_reactivate en event)
      else if ty = VStr ''push_bouncer_update_for_realm'' then
        falls_through (push_bouncer_update_for_realm en event)
      else ret Continue)"

definition consume :: "env \<Rightarrow> event \<Rightarrow> unit prog" where
  "consume en event =
     bnd (read_clock (time_time en)) (\<lambda>start.
     bnd (getitem event ''type'') (\<lambda>ty.
     bnd (handler en event start ty) (\<lambda>fl.
     case fl of
       Return \<Rightarrow> ret ()
     | Continue \<Rightarrow>
         bnd (read_clock (time_time en)) (\<lambda>end_time.
         logger INFO ''deferred_work processed %s event (%dms)''
           [AVal ty, AInt (percent_d ((end_time - start) * 1000))]))))"

declare export_state_machine.simps [simp del]

text \<open>
  The branches of the if-chain of \<^verbatim>\<open>consume\<close> that fall through to its end, as a
  table from the value of the \<open>type\<close> field to the body of the branch; the realm\_export
  branch, which may return, is not in the table. \<open>completed\<close> is what lines 232-237 make
  of the world \<open>w1\<close> a branch has left, for a call entered in world \<open>w\<close>.
\<close>

definition unit_handlers :: "(string \<times> (env \<Rightarrow> event \<Rightarrow> unit prog)) list" where
  "unit_handlers =
     [(''mark_stream_messages_as_read'', mark_stream_messages_as_read),
      (''mark_stream_messages_as_read_for_everyone'', mark_stream_messages_as_read_for_everyone),
      (''clear_push_device_tokens'', clear_push_device_tokens),
      (''reupload_realm_emoji'', reupload_realm_emoji),
      (''soft_reactivate'', soft_reactivate),
      (''push_bouncer_update_for_realm'', push_bouncer_update_for_realm)]"

definition completed :: "env \<Rightarrow> val \<Rightarrow> world \<Rightarrow> world \<Rightarrow> unit result \<times> world" where
  "completed en ty w w1 =
     (Ok (), w1\<lparr>ticks := Suc (ticks w1),
               trace := trace w1 @ [Log INFO ''deferred_work processed %s event (%dms)''
                 [AVal ty,
                  AInt (percent_d ((time_time en (ticks w1) - time_time en (ticks w)) * 1000))]]\<rparr>)"

subsection \<open>Observations on traces\<close>

text \<open>
  What one run adds to the trace, the collaborator calls among these effects, and the
  kinds of call and of log line the properties below count.
\<close>

definition new_trace :: "world \<Rightarrow> world \<Rightarrow> effect list" where
  "new_trace w w' = drop (length (trace w)) (trace w')"

definition calls :: "effect list \<Rightarrow> call list" where
  "calls tr = concat (map (\<lambda>e. case e of Called c \<Rightarrow> [c] | _ \<Rightarrow> []) tr)"

fun is_export :: "call \<Rightarrow> bool" where
  "is_export (ExportRealmWrapper k d n u) = True"
| "is_export c = False"

fun is_notify_observers :: "call \<Rightarrow> bool" where
  "is_notify_observers (NotifyRealmExport r) = True"
| "is_notify_observers c = False"

fun is_notify_actor :: "call \<Rightarrow> bool" where
  "is_notify_actor (InternalSendPrivateMessage s r c) = True"
| "is_notify_actor c = False"


subsection \<open>Runs of the batch loop and continuation sequences\<close>

text \<open>
  \<open>pending\<close> is the target set above a cursor: the ids of the stream's messages greater
  than the cursor, ascending. \<open>all_batches\<close> lists the batches, each with the cursor it
  was selected above, of a run that is never stopped by its time budget. \<open>marked\<close> and
  \<open>publishes\<close> read the batches and the published events off a trace. \<open>resolve\<close> is
  what lines 69-75 and 82-84 take from the event: the recipient, its stream, and the
  recipient id and the first cursor as integers. \<open>deliver\<close> runs the handler on an
  event and then on every continuation event it publishes, on an unchanged message table.
\<close>

lemmas prog_defs = ret_def throw_def bnd_def lift_def getitem_def int_of_def int_val_def
  logger_def invoke_def read_clock_def attempt_def queue_json_publish_rollback_unsafe_def
  save_realm_export_def get_realm_export_def get_audit_log_def create_realm_export_def
  save_extra_data_def delete_audit_log_def new_trace_def calls_def Let_def

definition pending :: "message list \<Rightarrow> int \<Rightarrow> int \<Rightarrow> int \<Rightarrow> int list" where
  "pending ms rlm rid c =
     sort (map msg_id (filter (\<lambda>m. in_stream rlm rid m \<and> c < msg_id m) ms))"

function all_batches :: "message list \<Rightarrow> int \<Rightarrow> int \<Rightarrow> int \<Rightarrow> (int \<times> int list) list" where
  "all_batches ms rlm rid c =
     (let b = select_batch ms rlm rid c
      in if length b < batch_size then [(c, b)]
         else (c, b) # all_batches ms rlm rid (last b))"
  by pat_completeness auto
termination
  by (relation "measure (\<lambda>(ms, rlm, rid, c). remaining ms rlm rid c)")
    (auto simp: remaining_decreases)

declare all_batches.simps [simp del]

lemma all_batches_short:
  "length (select_batch ms rlm rid c) < batch_size \<Longrightarrow>
   all_batches ms rlm rid c = [(c, select_batch ms rlm rid c)]"
  by (subst all_batches.simps) simp

lemma all_batches_full:
  "\<not> length (select_batch ms rlm rid c) < batch_size \<Longrightarrow>
   all_batches ms rlm rid c =
     (c, select_batch ms rlm rid c) # all_batches ms rlm rid (last (select_batch ms rlm rid c))"
  by (subst all_batches.simps) (simp add: Let_def)

lemma map_insort_key: "map f (insort_key f x xs) = insort (f x) (map f xs)"
  by (induction xs) auto

lemma map_sort_key: "map f (sort_key f xs) = sort (map f xs)"
  by (induction xs) (auto simp: map_insort_key)

lemma select_batch_pending:
  "select_batch ms rlm rid c = take batch_size (pending ms rlm rid c)"
  by (simp add: select_batch_def pending_def map_sort_key [symmetric] take_map)

lemma pending_above:
  assumes "c \<le> c'"
  shows "pending ms rlm rid c' = filter (\<lambda>i. c' < i) (pending ms rlm rid c)"
proof -
  have "filter (\<lambda>m. in_stream rlm rid m \<and> c' < msg_id m) ms
          = filter (\<lambda>m. c' < msg_id m) (filter (\<lambda>m. in_stream rlm rid m \<and> c < msg_id m) ms)"
    using assms by (auto intro: filter_cong)
  then show ?thesis
    by (simp add: pending_def filter_sort filter_map comp_def)
qed

lemma sorted_pending: "sorted (pending ms rlm rid c)"
  by (simp add: pending_def)

lemma distinct_pending: "distinct (map msg_id ms) \<Longrightarrow> distinct (pending ms rlm rid c)"
  by (simp add: pending_def distinct_map_filter)

lemma set_pending:
  "set (pending ms rlm rid c) = msg_id ` {m \<in> set ms. in_stream rlm rid m \<and> c < msg_id m}"
  by (auto simp: pending_def)

lemma filter_above_nth:
  assumes "sorted_wrt (<) xs" and "k < length xs"
  shows "filter (\<lambda>i. xs ! k < i) xs = drop (Suc k) (xs :: int list)"
proof -
  have low: "\<forall>x \<in> set (take (Suc k) xs). \<not> xs ! k < x"
  proof
    fix x assume "x \<in> set (take (Suc k) xs)"
    then obtain i where i: "i < Suc k" "x = xs ! i"
      using assms(2) by (auto simp: in_set_conv_nth)
    show "\<not> xs ! k < x"
    proof (cases "i = k")
      case True with i show ?thesis by simp
    next
      case False
      with i have "i < k" by simp
      from sorted_wrt_nth_less [OF assms(1) this assms(2)] i show ?thesis by simp
    qed
  qed
  have high: "\<forall>x \<in> set (drop (Suc k) xs). xs ! k < x"
  proof
    fix x assume "x \<in> set (drop (Suc k) xs)"
    then obtain j where j: "j < length xs - Suc k" "x = xs ! (Suc k + j)"
      by (auto simp: in_set_conv_nth)
    then have "k < Suc k + j" "Suc k + j < length xs" by auto
    from sorted_wrt_nth_less [OF assms(1) this] j show "xs ! k < x" by simp
  qed
  have "filter (\<lambda>i. xs ! k < i) xs
          = filter (\<lambda>i. xs ! k < i) (take (Suc k) xs) @ filter (\<lambda>i. xs ! k < i) (drop (Suc k) xs)"
    by (metis append_take_drop_id filter_append)
  also have "\<dots> = drop (Suc k) xs"
    using low high by (simp add: filter_empty_conv filter_id_conv)
  finally show ?thesis .
qed

lemma next_pending:
  assumes "distinct (map msg_id ms)" and "\<not> length (select_batch ms rlm rid c) < batch_size"
  shows "pending ms rlm rid (last (select_batch ms rlm rid c)) = drop batch_size (pending ms rlm rid c)"
    and "c < last (select_batch ms rlm rid c)"
proof -
  let ?p = "pending ms rlm rid c"
  from assms(2) have len: "batch_size \<le> length ?p"
    by (simp add: select_batch_pending)
  have bs: "0 < batch_size" by (simp add: batch_size_def)
  have "take batch_size ?p \<noteq> []"
    using len bs by auto
  from last_conv_nth [OF this] have lst: "last (select_batch ms rlm rid c) = ?p ! (batch_size - 1)"
    using len bs by (simp add: select_batch_pending min_def)
  have "?p ! (batch_size - 1) \<in> set ?p"
    using len bs by simp
  then show above: "c < last (select_batch ms rlm rid c)"
    unfolding lst set_pending by auto
  have strict: "sorted_wrt (<) ?p"
    using assms(1) by (simp add: strict_sorted_iff sorted_pending distinct_pending)
  have "pending ms rlm rid (?p ! (batch_size - 1)) = filter (\<lambda>i. ?p ! (batch_size - 1) < i) ?p"
    using above by (intro pending_above) (simp add: lst)
  also have "\<dots> = drop (Suc (batch_size - 1)) ?p"
    using len bs by (intro filter_above_nth [OF strict]) simp
  finally show "pending ms rlm rid (last (select_batch ms rlm rid c)) = drop batch_size ?p"
    using bs by (simp add: lst)
qed

lemma concat_all_batches:
  "distinct (map msg_id ms) \<Longrightarrow> concat (map snd (all_batches ms rlm rid c)) = pending ms rlm rid c"
proof (induction ms rlm rid c rule: all_batches.induct)
  case (1 ms rlm rid c)
  note assms = \<open>distinct (map msg_id ms)\<close>
  show ?case
  proof (cases "length (select_batch ms rlm rid c) < batch_size")
    case True
    then show ?thesis
      by (simp add: all_batches_short) (simp add: select_batch_pending)
  next
    case False
    from "1.IH" [OF refl False assms] next_pending(1) [OF assms False]
    show ?thesis
      by (simp add: all_batches_full [OF False]) (simp add: select_batch_pending)
  qed
qed

definition marked :: "effect list \<Rightarrow> (int \<times> int list) list" where
  "marked tr = concat (map (\<lambda>e. case e of Marked c ids \<Rightarrow> [(c, ids)] | _ \<Rightarrow> []) tr)"

definition publishes :: "effect list \<Rightarrow> (string \<times> event) list" where
  "publishes tr = concat (map (\<lambda>e. case e of Publish q ev \<Rightarrow> [(q, ev)] | _ \<Rightarrow> []) tr)"

definition mark_effects :: "(int \<times> int list) list \<Rightarrow> effect list" where
  "mark_effects bs = map (\<lambda>(c, ids). Marked c ids) bs"

lemma mark_loop_short:
  "length (select_batch (messages w) rlm rid c) < batch_size \<Longrightarrow>
   mark_loop en event rlm rid st c tot w =
     (Ok (tot + length (select_batch (messages w) rlm rid c)),
      commit_batch en c (select_batch (messages w) rlm rid c) w)"
  by (subst mark_loop.simps) (simp add: Let_def)

lemma mark_loop_budget:
  "\<not> length (select_batch (messages w) rlm rid c) < batch_size \<Longrightarrow>
   perf_counter en (ticks w) - st > 30 \<Longrightarrow>
   mark_loop en event rlm rid st c tot w =
     (Ok (tot + length (select_batch (messages w) rlm rid c)),
      (tick (commit_batch en c (select_batch (messages w) rlm rid c) w))
        \<lparr>trace := trace w @ [Marked c (select_batch (messages w) rlm rid c),
            Publish ''deferred_work''
              (event(''min_id'' \<mapsto> VInt (last (select_batch (messages w) rlm rid c))))]\<rparr>)"
  by (subst mark_loop.simps)
    (simp add: Let_def commit_batch_def tick_def bnd_def ret_def
      queue_json_publish_rollback_unsafe_def)

lemma mark_loop_again:
  "\<not> length (select_batch (messages w) rlm rid c) < batch_size \<Longrightarrow>
   \<not> perf_counter en (ticks w) - st > 30 \<Longrightarrow>
   mark_loop en event rlm rid st c tot w =
     mark_loop en event rlm rid st (last (select_batch (messages w) rlm rid c))
       (tot + length (select_batch (messages w) rlm rid c))
       (tick (commit_batch en c (select_batch (messages w) rlm rid c) w))"
  by (subst mark_loop.simps) (simp add: Let_def commit_batch_def)

declare mark_loop.simps [simp del]

definition loop_post ::
  "event \<Rightarrow> message list \<Rightarrow> int \<Rightarrow> int \<Rightarrow> int \<Rightarrow> effect list \<Rightarrow> nat result \<times> world \<Rightarrow> bool" where
  "loop_post event ms rlm rid c tr0 res =
     (case res of (r, w') \<Rightarrow>
        (\<exists>t. r = Ok t) \<and> messages w' = ms \<and>
        (\<exists>pre. pre \<noteq> [] \<and>
           (trace w' = tr0 @ mark_effects pre
              \<and> all_batches ms rlm rid c = pre
              \<and> length (snd (last pre)) < batch_size
            \<or> trace w' = tr0 @ mark_effects pre
                   @ [Publish ''deferred_work'' (event(''min_id'' \<mapsto> VInt (last (snd (last pre)))))]
              \<and> all_batches ms rlm rid c = pre @ all_batches ms rlm rid (last (snd (last pre)))
              \<and> length (snd (last pre)) = batch_size
              \<and> remaining ms rlm rid (last (snd (last pre))) < remaining ms rlm rid c)))"

lemma loop_post_short:
  assumes "length (select_batch ms rlm rid c) < batch_size"
    and "messages w' = ms" and "trace w' = tr0 @ [Marked c (select_batch ms rlm rid c)]"
  shows "loop_post event ms rlm rid c tr0 (Ok t, w')"
  unfolding loop_post_def using assms
  by (auto simp add: mark_effects_def all_batches_short intro!: exI [of _ "[(c, select_batch ms rlm rid c)]"])

lemma loop_post_budget:
  assumes "\<not> length (select_batch ms rlm rid c) < batch_size"
    and "messages w' = ms"
    and "trace w' = tr0 @ [Marked c (select_batch ms rlm rid c),
           Publish ''deferred_work'' (event(''min_id'' \<mapsto> VInt (last (select_batch ms rlm rid c))))]"
  shows "loop_post event ms rlm rid c tr0 (Ok t, w')"
proof -
  have len: "length (select_batch ms rlm rid c) = batch_size"
    using assms(1) by (simp add: select_batch_length)
  show ?thesis
    unfolding loop_post_def prod.case
    apply (intro conjI exI [of _ t] exI [of _ "[(c, select_batch ms rlm rid c)]"])
       apply simp
      apply (rule assms(2))
     apply simp
    apply (rule disjI2)
    using assms(3) len remaining_decreases [OF assms(1)]
    apply (simp add: mark_effects_def all_batches_full [OF assms(1)])
    done
qed

lemma loop_post_again:
  assumes full: "\<not> length (select_batch ms rlm rid c) < batch_size"
    and post: "loop_post event ms rlm rid (last (select_batch ms rlm rid c))
                 (tr0 @ [Marked c (select_batch ms rlm rid c)]) res"
  shows "loop_post event ms rlm rid c tr0 res"
proof -
  let ?b = "select_batch ms rlm rid c"
  obtain r w' where res: "res = (r, w')" by (cases res)
  from post [unfolded loop_post_def res prod.case]
  obtain pre where ok: "\<exists>t. r = Ok t" "messages w' = ms" and pre: "pre \<noteq> []"
    and alt: "trace w' = (tr0 @ [Marked c ?b]) @ mark_effects pre
              \<and> all_batches ms rlm rid (last ?b) = pre
              \<and> length (snd (last pre)) < batch_size
            \<or> trace w' = (tr0 @ [Marked c ?b]) @ mark_effects pre
                   @ [Publish ''deferred_work'' (event(''min_id'' \<mapsto> VInt (last (snd (last pre)))))]
              \<and> all_batches ms rlm rid (last ?b) = pre @ all_batches ms rlm rid (last (snd (last pre)))
              \<and> length (snd (last pre)) = batch_size
              \<and> remaining ms rlm rid (last (snd (last pre))) < remaining ms rlm rid (last ?b)"
    by blast
  let ?pre = "(c, ?b) # pre"
  have lst: "last ?pre = last pre" using pre by simp
  have eff: "mark_effects ?pre = Marked c ?b # mark_effects pre"
    by (simp add: mark_effects_def)
  have "trace w' = tr0 @ mark_effects ?pre
              \<and> all_batches ms rlm rid c = ?pre
              \<and> length (snd (last ?pre)) < batch_size
            \<or> trace w' = tr0 @ mark_effects ?pre
                   @ [Publish ''deferred_work'' (event(''min_id'' \<mapsto> VInt (last (snd (last ?pre)))))]
              \<and> all_batches ms rlm rid c = ?pre @ all_batches ms rlm rid (last (snd (last ?pre)))
              \<and> length (snd (last ?pre)) = batch_size
              \<and> remaining ms rlm rid (last (snd (last ?pre))) < remaining ms rlm rid c"
    using alt remaining_decreases [OF full]
    unfolding lst eff all_batches_full [OF full]
    by (elim disjE conjE) simp_all
  then show ?thesis
    unfolding loop_post_def res prod.case using ok
    by (intro conjI exI [of _ ?pre]) simp_all
qed

lemma mark_loop_run:
  "loop_post event (messages w) rlm rid c (trace w) (mark_loop en event rlm rid st c tot w)"
proof (induction en event rlm rid st c tot w rule: mark_loop.induct)
  case (1 en event rlm rid st c tot w)
  let ?b = "select_batch (messages w) rlm rid c"
  let ?w1 = "commit_batch en c ?b w"
  show ?case
  proof (cases "length ?b < batch_size")
    case True
    show ?thesis
      unfolding mark_loop_short [OF True]
      by (rule loop_post_short [OF True]) (simp_all add: commit_batch_def)
  next
    case False
    show ?thesis
    proof (cases "perf_counter en (ticks w) - st > 30")
      case True
      show ?thesis
        unfolding mark_loop_budget [OF False True]
        by (rule loop_post_budget [OF False]) (simp_all add: commit_batch_def tick_def)
    next
      case budget: False
      have tk: "ticks ?w1 = ticks w" "messages (tick ?w1) = messages w"
        "trace (tick ?w1) = trace w @ [Marked c ?b]"
        by (simp_all add: commit_batch_def tick_def)
      from budget have "\<not> perf_counter en (ticks ?w1) - st > 30"
        by (simp add: tk)
      from "1.IH" [OF refl refl refl False this]
      have "loop_post event (messages w) rlm rid (last ?b) (trace w @ [Marked c ?b])
              (mark_loop en event rlm rid st (last ?b) (tot + length ?b) (tick ?w1))"
        by (simp add: tk)
      from loop_post_again [OF False this]
      show ?thesis
        by (simp add: mark_loop_again [OF False budget])
    qed
  qed
qed


definition resolve :: "env \<Rightarrow> event \<Rightarrow> (val \<times> stream \<times> int \<times> int) option" where
  "resolve en event =
     (case event ''stream_recipient_id'' of
        None \<Rightarrow> None
      | Some recipient \<Rightarrow>
          (case get_stream en recipient of
             Inl e \<Rightarrow> None
           | Inr stream \<Rightarrow>
               (case int_val en recipient of
                  Inl e \<Rightarrow> None
                | Inr rid \<Rightarrow>
                    (case int_val en (get_default event ''min_id'' (VInt 0)) of
                       Inl e \<Rightarrow> None
                     | Inr c \<Rightarrow> Some (recipient, stream, rid, c)))))"

definition todo :: "env \<Rightarrow> event \<Rightarrow> world \<Rightarrow> nat" where
  "todo en event w =
     (case resolve en event of
        None \<Rightarrow> 0
      | Some (recipient, stream, rid, c) \<Rightarrow> remaining (messages w) (stream_realm_id stream) rid c)"

lemma marked_simps [simp]:
  "marked [] = []"
  "marked (xs @ ys) = marked xs @ marked ys"
  "marked (Marked c ids # xs) = (c, ids) # marked xs"
  "marked (Log lv fmt args # xs) = marked xs"
  "marked (Publish q ev # xs) = marked xs"
  "marked (Called cl # xs) = marked xs"
  "marked (mark_effects bs) = bs"
  by (simp_all add: marked_def mark_effects_def) (induction bs, auto)

lemma publishes_simps [simp]:
  "publishes [] = []"
  "publishes (xs @ ys) = publishes xs @ publishes ys"
  "publishes (Marked c ids # xs) = publishes xs"
  "publishes (Log lv fmt args # xs) = publishes xs"
  "publishes (Publish q ev # xs) = (q, ev) # publishes xs"
  "publishes (Called cl # xs) = publishes xs"
  "publishes (mark_effects bs) = []"
  by (simp_all add: publishes_def mark_effects_def) (induction bs, auto)

lemma new_trace_append [simp]: "trace w' = trace w @ xs \<Longrightarrow> new_trace w w' = xs"
  by (simp add: new_trace_def)

lemma handler_unresolved:
  assumes "resolve en event = None"
  shows "\<exists>e w' logs. mark_stream_messages_as_read_for_everyone en event w = (Raise e, w')
           \<and> trace w' = trace w @ logs \<and> marked logs = [] \<and> publishes logs = []
           \<and> messages w' = messages w"
  using assms
  by (auto simp add: resolve_def mark_stream_messages_as_read_for_everyone_def prog_defs
      split: option.splits sum.splits)

lemma handler_resolved:
  assumes "resolve en event = Some (recipient, stream, rid, c)"
    and "mark_loop en event (stream_realm_id stream) rid (perf_counter en (ticks w)) c 0
             (w\<lparr>trace := trace w @ [Log INFO
                  ''Marking messages as read for all users, stream_recipient_id %s'' [AVal recipient]],
                ticks := Suc (ticks w)\<rparr>) = (Ok t, w')"
  shows "mark_stream_messages_as_read_for_everyone en event w =
          (Ok (), w'\<lparr>trace := trace w' @ [Log INFO
             ''Marked %s messages as read for all users, stream_recipient_id %s''
             [AInt (int t), AVal recipient]]\<rparr>)"
  using assms
  by (simp add: resolve_def mark_stream_messages_as_read_for_everyone_def prog_defs
      split: option.splits sum.splits)


definition run_post :: "event \<Rightarrow> message list \<Rightarrow> int \<Rightarrow> int \<Rightarrow> int \<Rightarrow> world \<Rightarrow> world \<Rightarrow> bool" where
  "run_post event ms rlm rid c w w' =
     (messages w' = ms \<and>
      (\<exists>new pre. trace w' = trace w @ new \<and> pre \<noteq> [] \<and> marked new = pre \<and>
         (publishes new = []
            \<and> all_batches ms rlm rid c = pre
            \<and> length (snd (last pre)) < batch_size
          \<or> publishes new = [(''deferred_work'', event(''min_id'' \<mapsto> VInt (last (snd (last pre)))))]
            \<and> all_batches ms rlm rid c = pre @ all_batches ms rlm rid (last (snd (last pre)))
            \<and> length (snd (last pre)) = batch_size
            \<and> remaining ms rlm rid (last (snd (last pre))) < remaining ms rlm rid c)))"

lemma handler_post:
  assumes "resolve en event = Some (recipient, stream, rid, c)"
  shows "fst (mark_stream_messages_as_read_for_everyone en event w) = Ok ()"
    and "run_post event (messages w) (stream_realm_id stream) rid c w
           (snd (mark_stream_messages_as_read_for_everyone en event w))"
proof -
  let ?rlm = "stream_realm_id stream"
  let ?l1 = "Log INFO ''Marking messages as read for all users, stream_recipient_id %s'' [AVal recipient]"
  let ?w0 = "w\<lparr>trace := trace w @ [?l1], ticks := Suc (ticks w)\<rparr>"
  obtain r w' where res: "mark_loop en event ?rlm rid (perf_counter en (ticks w)) c 0 ?w0 = (r, w')"
    by (cases "mark_loop en event ?rlm rid (perf_counter en (ticks w)) c 0 ?w0")
  have "loop_post event (messages ?w0) ?rlm rid c (trace ?w0) (r, w')"
    using mark_loop_run [of event ?w0 ?rlm rid c en "perf_counter en (ticks w)" 0] res by simp
  then obtain t pre where r: "r = Ok t" and ms: "messages w' = messages w" and pre: "pre \<noteq> []"
    and alt: "trace w' = (trace w @ [?l1]) @ mark_effects pre
              \<and> all_batches (messages w) ?rlm rid c = pre
              \<and> length (snd (last pre)) < batch_size
            \<or> trace w' = (trace w @ [?l1]) @ mark_effects pre
                   @ [Publish ''deferred_work'' (event(''min_id'' \<mapsto> VInt (last (snd (last pre)))))]
              \<and> all_batches (messages w) ?rlm rid c
                   = pre @ all_batches (messages w) ?rlm rid (last (snd (last pre)))
              \<and> length (snd (last pre)) = batch_size
              \<and> remaining (messages w) ?rlm rid (last (snd (last pre)))
                   < remaining (messages w) ?rlm rid c"
    unfolding loop_post_def prod.case by auto
  let ?l2 = "Log INFO ''Marked %s messages as read for all users, stream_recipient_id %s''
               [AInt (int t), AVal recipient]"
  have run: "mark_stream_messages_as_read_for_everyone en event w
               = (Ok (), w'\<lparr>trace := trace w' @ [?l2]\<rparr>)"
    using handler_resolved [OF assms] res r by simp
  show "fst (mark_stream_messages_as_read_for_everyone en event w) = Ok ()"
    by (simp add: run)
  from alt show "run_post event (messages w) ?rlm rid c w
           (snd (mark_stream_messages_as_read_for_everyone en event w))"
  proof
    assume a: "trace w' = (trace w @ [?l1]) @ mark_effects pre
              \<and> all_batches (messages w) ?rlm rid c = pre
              \<and> length (snd (last pre)) < batch_size"
    show ?thesis
      unfolding run_post_def run snd_conv
      apply (intro conjI exI [of _ "[?l1] @ mark_effects pre @ [?l2]"] exI [of _ pre])
         apply (simp add: ms)
        apply (simp add: a)
       apply (rule pre)
      apply simp
      apply (rule disjI1)
      using a apply simp
      done
  next
    assume a: "trace w' = (trace w @ [?l1]) @ mark_effects pre
                   @ [Publish ''deferred_work'' (event(''min_id'' \<mapsto> VInt (last (snd (last pre)))))]
              \<and> all_batches (messages w) ?rlm rid c
                   = pre @ all_batches (messages w) ?rlm rid (last (snd (last pre)))
              \<and> length (snd (last pre)) = batch_size
              \<and> remaining (messages w) ?rlm rid (last (snd (last pre)))
                   < remaining (messages w) ?rlm rid c"
    show ?thesis
      unfolding run_post_def run snd_conv
      apply (intro conjI exI [of _ "[?l1] @ mark_effects pre
               @ [Publish ''deferred_work'' (event(''min_id'' \<mapsto> VInt (last (snd (last pre)))))]
               @ [?l2]"] exI [of _ pre])
         apply (simp add: ms)
        apply (simp add: a)
       apply (rule pre)
      apply simp
      apply (rule disjI2)
      using a apply simp
      done
  qed
qed

lemma resolve_continuation:
  assumes "resolve en event = Some (recipient, stream, rid, c)"
  shows "resolve en (event(''min_id'' \<mapsto> VInt c')) = Some (recipient, stream, rid, c')"
  using assms
  by (simp add: resolve_def get_default_def int_val_def split: option.splits sum.splits)


lemma deliver_step:
  assumes "publishes (new_trace w (snd (mark_stream_messages_as_read_for_everyone en event w)))
             = (q, ev) # rest"
  shows "todo en ev (snd (mark_stream_messages_as_read_for_everyone en event w)) < todo en event w"
proof (cases "resolve en event")
  case None
  from handler_unresolved [OF None, of w] assms show ?thesis
    by auto
next
  case (Some a)
  then obtain recipient stream rid c where res: "resolve en event = Some (recipient, stream, rid, c)"
    by (cases a) auto
  let ?w' = "snd (mark_stream_messages_as_read_for_everyone en event w)"
  from handler_post(2) [OF res, of w] assms
  obtain c' where ms: "messages ?w' = messages w" and ev: "ev = event(''min_id'' \<mapsto> VInt c')"
    and less: "remaining (messages w) (stream_realm_id stream) rid c'
                 < remaining (messages w) (stream_realm_id stream) rid c"
    unfolding run_post_def by auto
  show ?thesis
    using less by (simp add: todo_def res ev resolve_continuation [OF res] ms)
qed

function deliver :: "env \<Rightarrow> event \<Rightarrow> world \<Rightarrow> world" where
  "deliver en event w =
     (let w' = snd (mark_stream_messages_as_read_for_everyone en event w)
      in case publishes (new_trace w w') of
           [] \<Rightarrow> w'
         | (q, ev) # rest \<Rightarrow> deliver en ev w')"
  by pat_completeness auto
termination
  by (relation "measure (\<lambda>(en, event, w). todo en event w)") (auto simp: deliver_step)

declare deliver.simps [simp del]

lemma deliver_run:
  assumes "resolve en event = Some (recipient, stream, rid, c)"
  shows "messages (deliver en event w) = messages w \<and>
         (\<exists>new. trace (deliver en event w) = trace w @ new
            \<and> marked new = all_batches (messages w) (stream_realm_id stream) rid c)"
  using assms
proof (induction en event w arbitrary: c rule: deliver.induct)
  case (1 en event w)
  let ?rlm = "stream_realm_id stream"
  let ?w' = "snd (mark_stream_messages_as_read_for_everyone en event w)"
  from handler_post(2) [OF "1.prems", of w]
  obtain new pre where ms: "messages ?w' = messages w" and tr: "trace ?w' = trace w @ new"
    and pre: "pre \<noteq> []" "marked new = pre"
    and alt: "publishes new = []
            \<and> all_batches (messages w) ?rlm rid c = pre
            \<and> length (snd (last pre)) < batch_size
          \<or> publishes new = [(''deferred_work'', event(''min_id'' \<mapsto> VInt (last (snd (last pre)))))]
            \<and> all_batches (messages w) ?rlm rid c
                 = pre @ all_batches (messages w) ?rlm rid (last (snd (last pre)))
            \<and> length (snd (last pre)) = batch_size
            \<and> remaining (messages w) ?rlm rid (last (snd (last pre)))
                 < remaining (messages w) ?rlm rid c"
    unfolding run_post_def by blast
  from alt show ?case
  proof
    assume a: "publishes new = []
            \<and> all_batches (messages w) ?rlm rid c = pre
            \<and> length (snd (last pre)) < batch_size"
    have "deliver en event w = ?w'"
      by (subst deliver.simps) (simp add: Let_def tr a)
    with ms tr pre a show ?thesis
      by simp
  next
    let ?ev = "event(''min_id'' \<mapsto> VInt (last (snd (last pre))))"
    assume a: "publishes new = [(''deferred_work'', ?ev)]
            \<and> all_batches (messages w) ?rlm rid c
                 = pre @ all_batches (messages w) ?rlm rid (last (snd (last pre)))
            \<and> length (snd (last pre)) = batch_size
            \<and> remaining (messages w) ?rlm rid (last (snd (last pre)))
                 < remaining (messages w) ?rlm rid c"
    have pub: "publishes (new_trace w ?w') = (''deferred_work'', ?ev) # []"
      by (simp add: tr a)
    have step: "deliver en event w = deliver en ?ev ?w'"
      by (subst deliver.simps) (simp add: Let_def tr a)
    from "1.IH" [OF refl pub refl resolve_continuation [OF "1.prems"]]
    obtain new' where "messages (deliver en ?ev ?w') = messages ?w'"
      "trace (deliver en ?ev ?w') = trace ?w' @ new'"
      "marked new' = all_batches (messages ?w') ?rlm rid (last (snd (last pre)))"
      by blast
    then show ?thesis
      unfolding step using ms tr pre a
      by (intro conjI exI [of _ "new @ new'"]) simp_all
  qed
qed

lemma select_batch_above: "i \<in> set (select_batch ms rlm rid c) \<Longrightarrow> c < i"
  using select_batch_subset [of ms rlm rid c] by auto

lemma all_batches_cursors:
  "sorted_wrt (<) (map fst (all_batches ms rlm rid c)) \<and>
   (\<forall>x \<in> set (all_batches ms rlm rid c). c \<le> fst x)"
proof (induction ms rlm rid c rule: all_batches.induct)
  case (1 ms rlm rid c)
  let ?b = "select_batch ms rlm rid c"
  show ?case
  proof (cases "length ?b < batch_size")
    case True
    then show ?thesis
      by (simp add: all_batches_short)
  next
    case False
    then have "?b \<noteq> []"
      by (auto simp: batch_size_def)
    then have "c < last ?b"
      by (intro select_batch_above [of _ ms rlm rid]) simp
    with "1.IH" [OF refl False] show ?thesis
      by (fastforce simp add: all_batches_full [OF False])
  qed
qed

lemma all_batches_select:
  "(c', ids) \<in> set (all_batches ms rlm rid c) \<Longrightarrow> ids = select_batch ms rlm rid c'"
proof (induction ms rlm rid c rule: all_batches.induct)
  case (1 ms rlm rid c)
  show ?case
  proof (cases "length (select_batch ms rlm rid c) < batch_size")
    case True
    with "1.prems" show ?thesis
      by (simp add: all_batches_short)
  next
    case False
    with "1.prems" "1.IH" [OF refl False] show ?thesis
      by (auto simp add: all_batches_full [OF False])
  qed
qed

subsection \<open>A concrete deployment\<close>

text \<open>
  One realm, one user, a stream of 120 messages, and three export records: one failed, one
  completed and one requested. In \<open>failing_export_env\<close> the export operation raises and
  leaves the record as it found it.
\<close>

definition is_completion_log :: "effect \<Rightarrow> bool" where
  "is_completion_log e = (case e of
       Log lv fmt args \<Rightarrow> lv = INFO \<and> fmt = ''deferred_work processed %s event (%dms)''
     | _ \<Rightarrow> False)"

definition demo_realm :: realm where
  "demo_realm = \<lparr>realm_id = 2, string_id = ''zulip''\<rparr>"

definition demo_user :: user_profile where
  "demo_user = \<lparr>up_id = 1, up_realm = demo_realm, default_language = ''en''\<rparr>"

definition demo_env :: env where
  "demo_env = \<lparr>
     queue_name = ''deferred_work'',
     threaded = False,
     time_time = (\<lambda>n. 100 + real n / 4),
     perf_counter = (\<lambda>n. 20 * real n),
     timezone_now = (\<lambda>n. 5000 + real n),
     to_int = (\<lambda>v. Inl (TypeError ''int'')),
     get_user_profile_by_id =
       (\<lambda>v. if v = VInt 1 then Inr demo_user else Inl (DoesNotExist ''UserProfile'')),
     get_stream =
       (\<lambda>v. if v = VInt 9 then Inr \<lparr>stream_realm_id = 2\<rparr> else Inl (DoesNotExist ''Stream'')),
     get_realm = (\<lambda>v. if v = VInt 2 then Inr demo_realm else Inl (DoesNotExist ''Realm'')),
     raises = (\<lambda>c. None),
     mark_count = (\<lambda>u r. 0),
     mkdtemp = (\<lambda>prefix. ''/tmp/'' @ prefix @ ''k3x''),
     system_bot = (\<lambda>r. 40),
     gettext = (\<lambda>lang s. s),
     format_link = (\<lambda>s link. s),
     export_realm_wrapper = (\<lambda>k row. row),
     flags_read = 1,
     where_unread = (\<lambda>um. and (um_flags um) 1 = 0),
     MAX_REQUEST_RETRIES = 3\<rparr>"

definition failing_export_env :: env where
  "failing_export_env =
     demo_env\<lparr>raises := (\<lambda>c. if is_export c then Some (Exception ''disk full'') else None)\<rparr>"

definition demo_export :: "export_status \<Rightarrow> realm_export" where
  "demo_export st = \<lparr>export_realm = 2, export_kind = EXPORT_PUBLIC, acting_user = 1,
     status = st, date_requested = VInt 1700000000, date_failed = None\<rparr>"

definition demo_messages :: "message list" where
  "demo_messages =
     map (\<lambda>i. \<lparr>msg_id = i, msg_realm_id = 2, msg_recipient_id = 9\<rparr>) [1..120]
     @ [\<lparr>msg_id = 121, msg_realm_id = 2, msg_recipient_id = 8\<rparr>]"

definition demo_world :: world where
  "demo_world = \<lparr>
     ticks = 0,
     trace = [],
     messages = demo_messages,
     user_messages = [],
     realm_exports = [6 \<mapsto> demo_export FAILED, 7 \<mapsto> demo_export COMPLETED, 8 \<mapsto> demo_export REQUESTED],
     audit_logs = Map.empty,
     next_export_id = 9,
     failed_tries = 0\<rparr>"

definition export_job :: "int \<Rightarrow> event" where
  "export_job k = [''type'' \<mapsto> VStr ''realm_export'', ''user_profile_id'' \<mapsto> VInt 1,
                   ''realm_export_id'' \<mapsto> VInt k]"


text \<open>
  Two environments in which clearing the push device tokens of user 1 fails, with the
  transient error and with another exception; and two job events.
\<close>

definition retry_later_env :: env where
  "retry_later_env =
     demo_env\<lparr>raises := (\<lambda>c. if c = ClearPushDeviceTokens (VInt 1)
                              then Some PushNotificationBouncerRetryLaterError else None)\<rparr>"

definition broken_bouncer_env :: env where
  "broken_bouncer_env =
     demo_env\<lparr>raises := (\<lambda>c. if c = ClearPushDeviceTokens (VInt 1)
                              then Some (Exception ''connection refused'') else None)\<rparr>"

definition clear_job :: event where
  "clear_job = [''type'' \<mapsto> VStr ''clear_push_device_tokens'', ''user_profile_id'' \<mapsto> VInt 1]"

definition soft_job :: event where
  "soft_job = [''type'' \<mapsto> VStr ''soft_reactivate'', ''user_profile_id'' \<mapsto> VInt 1]"

definition emoji_job :: event where
  "emoji_job = [''type'' \<mapsto> VStr ''reupload_realm_emoji'', ''realm_id'' \<mapsto> VInt 2]"

definition unknown_job :: event where
  "unknown_job = [''type'' \<mapsto> VStr ''rebuild_search_index'', ''realm_id'' \<mapsto> VInt 2]"

text \<open>
  The same deployment with five rows in the \<^verbatim>\<open>UserMessage\<close> table: three unread rows for
  messages of the stream (one of them with another flag set), one row that is already
  read, and one unread row for a message of another stream.
\<close>

definition read_world :: world where
  "read_world = demo_world\<lparr>user_messages :=
     [\<lparr>um_message_id = 1, um_flags = 0\<rparr>,
      \<lparr>um_message_id = 2, um_flags = 1\<rparr>,
      \<lparr>um_message_id = 60, um_flags = 0\<rparr>,
      \<lparr>um_message_id = 110, um_flags = 2\<rparr>,
      \<lparr>um_message_id = 121, um_flags = 0\<rparr>]\<rparr>"

definition read_job :: event where
  "read_job = [''type'' \<mapsto> VStr ''mark_stream_messages_as_read_for_everyone'',
               ''stream_recipient_id'' \<mapsto> VInt 9]"

section \<open>Properties\<close>

subsection \<open>Running the export state machine\<close>

lemma short_circuit:
  assumes "status export_row \<noteq> REQUESTED"
  shows "export_state_machine en start output_dir user_profile (export_event, k, export_row) w =
     ((case raises en (NotifyRealmExport (up_realm user_profile)) of None \<Rightarrow> Ok Return | Some e \<Rightarrow> Raise e),
      w\<lparr>ticks := Suc (ticks w),
        trace := trace w @
          [Log ERROR ''Marking export for realm %s as failed due to retry -- possible OOM during export?''
             [AStr (string_id (up_realm user_profile))],
           Called (NotifyRealmExport (up_realm user_profile))],
        realm_exports := (realm_exports w)(k \<mapsto> export_row\<lparr>status := FAILED, date_failed := Some (timezone_now en (ticks w))\<rparr>)\<rparr>)"
  using assms by (simp add: export_state_machine.simps prog_defs split: option.splits)

lemma export_fails:
  assumes "status export_row = REQUESTED"
    and "raises en (ExportRealmWrapper k output_dir (if threaded en then 1 else 6) True) = Some e"
  shows "export_state_machine en start output_dir user_profile (export_event, k, export_row) w =
     ((case raises en (NotifyRealmExport (up_realm user_profile)) of None \<Rightarrow> Ok Return | Some e \<Rightarrow> Raise e),
      w\<lparr>ticks := Suc (ticks w),
        trace := trace w @
          [Log INFO ''Starting realm export for realm %s into %s, initiated by user_profile_id %s''
             [AStr (string_id (up_realm user_profile)), AStr output_dir, AInt (up_id user_profile)],
           Called (ExportRealmWrapper k output_dir (if threaded en then 1 else 6) True),
           Log EXCEPTION ''Data export for %s failed after %s''
             [AStr (string_id (up_realm user_profile)), ASeconds (time_time en (ticks w) - start)],
           Called (NotifyRealmExport (up_realm user_profile))],
        realm_exports := (realm_exports w)(k \<mapsto> export_realm_wrapper en k export_row)\<rparr>)"
  using assms by (simp add: export_state_machine.simps prog_defs run_export_def split: option.splits)


lemma consume_export_job:
  "realm_exports demo_world k = Some row \<Longrightarrow> raises en (Mkdtemp ''zulip-export-'') = None
   \<Longrightarrow> get_user_profile_by_id en (VInt 1) = Inr demo_user \<Longrightarrow>
   consume en (export_job k) demo_world =
     (case export_state_machine en (time_time en 0) (mkdtemp en ''zulip-export-'') demo_user (None, k, row)
             (demo_world\<lparr>ticks := 1, trace := [Called (Mkdtemp ''zulip-export-'')]\<rparr>) of
        (Ok Return, w') \<Rightarrow> (Ok (), w')
      | (Ok Continue, w') \<Rightarrow>
          (Ok (), w'\<lparr>ticks := Suc (ticks w'),
                    trace := trace w' @ [Log INFO ''deferred_work processed %s event (%dms)''
                      [AVal (VStr ''realm_export''),
                       AInt (percent_d ((time_time en (ticks w') - time_time en 0) * 1000))]]\<rparr>)
      | (Raise e, w') \<Rightarrow> (Raise e, w'))"
  by (simp add: consume_def handler_def realm_export_def load_export_row_def export_job_def
      prog_defs demo_world_def split: prod.splits result.splits flow.splits)

lemma demo_env_simps:
  "raises demo_env c = None"
  "get_user_profile_by_id demo_env (VInt 1) = Inr demo_user"
  "timezone_now demo_env n = 5000 + real n"
  "time_time demo_env n = 100 + real n / 4"
  "export_realm_wrapper demo_env k row = row"
  "threaded demo_env = False"
  "mkdtemp demo_env p = ''/tmp/'' @ p @ ''k3x''"
  by (simp_all add: demo_env_def)

lemma demo_world_simps:
  "realm_exports demo_world 6 = Some (demo_export FAILED)"
  "realm_exports demo_world 7 = Some (demo_export COMPLETED)"
  "realm_exports demo_world 8 = Some (demo_export REQUESTED)"
  "ticks demo_world = 0" "trace demo_world = []"
  by (simp_all add: demo_world_def)

lemma demo_export_status: "status (demo_export st) = st"
  by (simp add: demo_export_def)

lemma failing_export_env_simps:
  "raises failing_export_env c = (if is_export c then Some (Exception ''disk full'') else None)"
  "get_user_profile_by_id failing_export_env (VInt 1) = Inr demo_user"
  "time_time failing_export_env n = 100 + real n / 4"
  "export_realm_wrapper failing_export_env k row = row"
  "threaded failing_export_env = False"
  "mkdtemp failing_export_env p = ''/tmp/'' @ p @ ''k3x''"
  by (simp_all add: failing_export_env_def demo_env_def)


subsection \<open>The export state machine\<close>

text \<open>
  Claim C1, as amended. For every realm\_export job whose status record is not in state
  REQUESTED when the handler has loaded it (so in particular COMPLETED or FAILED), the
  handler does not invoke the export operation, writes status FAILED and the current time
  as failure timestamp to the record, and sends exactly one observer notification; it
  returns at line 161 unless that notification raises. A COMPLETED record is therefore
  moved to FAILED: the terminal states are not absorbing.
\<close>

theorem C1_redelivery_short_circuit:
  assumes "status export_row \<noteq> REQUESTED"
  shows "case export_state_machine en start output_dir user_profile (export_event, k, export_row) w of
     (r, w') \<Rightarrow>
       filter is_export (calls (new_trace w w')) = []
     \<and> realm_exports w' =
         (realm_exports w)(k \<mapsto> export_row\<lparr>status := FAILED, date_failed := Some (timezone_now en (ticks w))\<rparr>)
     \<and> filter is_notify_observers (calls (new_trace w w')) = [NotifyRealmExport (up_realm user_profile)]
     \<and> r = (case raises en (NotifyRealmExport (up_realm user_profile)) of None \<Rightarrow> Ok Return | Some e \<Rightarrow> Raise e)"
  by (simp add: short_circuit [OF assms] new_trace_def calls_def)

theorem C1_redelivery_short_circuit_witness:
  "status (demo_export COMPLETED) \<noteq> REQUESTED \<and>
   (case export_state_machine demo_env 100 ''/tmp/zulip-export-k3x'' demo_user
           (None, 7, demo_export COMPLETED) demo_world of
     (r, w') \<Rightarrow>
       filter is_export (calls (new_trace demo_world w')) = []
     \<and> realm_exports w' =
         (realm_exports demo_world)(7 \<mapsto> demo_export COMPLETED\<lparr>status := FAILED, date_failed := Some 5000\<rparr>)
     \<and> filter is_notify_observers (calls (new_trace demo_world w')) = [NotifyRealmExport demo_realm]
     \<and> r = Ok Return)"
  using C1_redelivery_short_circuit [where export_row = "demo_export COMPLETED" and en = demo_env and start = 100
      and output_dir = "''/tmp/zulip-export-k3x''" and user_profile = demo_user
      and export_event = None and k = 7 and w = demo_world]
  by (simp add: demo_export_status demo_env_simps demo_world_simps demo_user_def)


text \<open>
  Claim C1 as stated fails: a record found COMPLETED is transitioned again, to FAILED.
\<close>

theorem C1_completed_record_is_failed:
  "status (the (realm_exports demo_world 7)) = COMPLETED \<and>
   status (the (realm_exports (snd (consume demo_env (export_job 7) demo_world)) 7)) = FAILED"
  by (simp add: consume_export_job [OF demo_world_simps(2)] short_circuit demo_env_simps
      demo_world_simps demo_export_status)



text \<open>
  Claim C2, as amended. For every realm\_export job found in state REQUESTED, if the export
  operation raises, the handler catches the exception, logs it with the time elapsed since
  the start of \<^verbatim>\<open>consume\<close>, notifies observers and returns at line 185 without
  propagating the exception. The handler itself writes nothing to the status record on
  this path: the record is as the export operation left it.
\<close>

theorem C2_export_exception_caught:
  assumes "status export_row = REQUESTED"
    and "raises en (ExportRealmWrapper k output_dir (if threaded en then 1 else 6) True) = Some e"
  shows "case export_state_machine en start output_dir user_profile (export_event, k, export_row) w of
     (r, w') \<Rightarrow>
       new_trace w w' =
         [Log INFO ''Starting realm export for realm %s into %s, initiated by user_profile_id %s''
            [AStr (string_id (up_realm user_profile)), AStr output_dir, AInt (up_id user_profile)],
          Called (ExportRealmWrapper k output_dir (if threaded en then 1 else 6) True),
          Log EXCEPTION ''Data export for %s failed after %s''
            [AStr (string_id (up_realm user_profile)), ASeconds (time_time en (ticks w) - start)],
          Called (NotifyRealmExport (up_realm user_profile))]
     \<and> realm_exports w' = (realm_exports w)(k \<mapsto> export_realm_wrapper en k export_row)
     \<and> r = (case raises en (NotifyRealmExport (up_realm user_profile)) of
              None \<Rightarrow> Ok Return | Some e' \<Rightarrow> Raise e')"
  by (simp add: export_fails [OF assms] new_trace_def)

theorem C2_export_exception_caught_witness:
  "status (demo_export REQUESTED) = REQUESTED \<and>
   raises failing_export_env (ExportRealmWrapper 8 ''/tmp/zulip-export-k3x'' 6 True) = Some (Exception ''disk full'') \<and>
   (case export_state_machine failing_export_env 100 ''/tmp/zulip-export-k3x'' demo_user
           (None, 8, demo_export REQUESTED) demo_world of
     (r, w') \<Rightarrow>
       new_trace demo_world w' =
         [Log INFO ''Starting realm export for realm %s into %s, initiated by user_profile_id %s''
            [AStr ''zulip'', AStr ''/tmp/zulip-export-k3x'', AInt 1],
          Called (ExportRealmWrapper 8 ''/tmp/zulip-export-k3x'' 6 True),
          Log EXCEPTION ''Data export for %s failed after %s'' [AStr ''zulip'', ASeconds 0],
          Called (NotifyRealmExport demo_realm)]
     \<and> realm_exports w' = (realm_exports demo_world)(8 \<mapsto> demo_export REQUESTED)
     \<and> r = Ok Return)"
  using C2_export_exception_caught [where export_row = "demo_export REQUESTED" and en = failing_export_env and k = 8
      and output_dir = "''/tmp/zulip-export-k3x''" and e = "Exception ''disk full''"
      and start = 100 and user_profile = demo_user and export_event = None and w = demo_world]
  by (simp add: demo_export_status failing_export_env_simps demo_world_simps demo_user_def demo_realm_def)


text \<open>
  Claim C2 as stated fails: when the export operation raises without recording the
  failure, the record is still REQUESTED and has no failure timestamp after the handler
  has returned.
\<close>

theorem C2_status_left_requested:
  "fst (consume failing_export_env (export_job 8) demo_world) = Ok () \<and>
   status (the (realm_exports (snd (consume failing_export_env (export_job 8) demo_world)) 8)) = REQUESTED \<and>
   date_failed (the (realm_exports (snd (consume failing_export_env (export_job 8) demo_world)) 8)) = None"
  by (simp add: consume_export_job [OF demo_world_simps(3)] export_fails failing_export_env_simps
      demo_world_simps demo_export_status demo_export_def)


text \<open>
  Claim C3, as amended. For every realm\_export job that ends in failure, by the redelivery
  short-circuit or by an exception of the export operation (the two \<^verbatim>\<open>return\<close>
  statements of the handler), exactly one notification is sent to observers and none to
  the initiating actor.
\<close>

theorem C3_failure_notifications:
  "case export_state_machine en start output_dir user_profile (export_event, k, export_row) w of
     (r, w') \<Rightarrow>
       r = Ok Return \<longrightarrow>
         filter is_notify_observers (calls (new_trace w w')) = [NotifyRealmExport (up_realm user_profile)]
       \<and> filter is_notify_actor (calls (new_trace w w')) = []"
proof (cases "status export_row = REQUESTED")
  case False
  then show ?thesis
    by (simp add: short_circuit new_trace_def calls_def)
next
  case True
  show ?thesis
  proof (cases "raises en (ExportRealmWrapper k output_dir (if threaded en then 1 else 6) True)")
    case (Some e)
    with True show ?thesis
      by (simp add: export_fails new_trace_def calls_def)
  next
    case None
    with True show ?thesis
      by (simp add: export_state_machine.simps prog_defs run_export_def
          split: option.splits)
  qed
qed

theorem C3_failure_notifications_witness:
  "(case export_state_machine demo_env 100 ''/tmp/zulip-export-k3x'' demo_user
           (None, 6, demo_export FAILED) demo_world of
     (r, w') \<Rightarrow>
       r = Ok Return
     \<and> filter is_notify_observers (calls (new_trace demo_world w')) = [NotifyRealmExport demo_realm]
     \<and> filter is_notify_actor (calls (new_trace demo_world w')) = [])"
  using C3_failure_notifications [where en = demo_env and start = 100 and output_dir = "''/tmp/zulip-export-k3x''"
      and user_profile = demo_user and export_event = None and k = 6
      and export_row = "demo_export FAILED" and w = demo_world]
  by (simp add: short_circuit demo_export_status demo_env_simps demo_user_def split: prod.splits)


text \<open>
  Claim C3 as stated fails: a job that ends in failure sends no direct message to the
  user who initiated the export.
\<close>

theorem C3_no_message_to_actor:
  "fst (consume demo_env (export_job 6) demo_world) = Ok () \<and>
   length (filter is_notify_actor
     (calls (new_trace demo_world (snd (consume demo_env (export_job 6) demo_world))))) = 0"
  by (simp add: consume_export_job [OF demo_world_simps(1)] short_circuit demo_env_simps
      demo_world_simps demo_export_status new_trace_def calls_def)


subsection \<open>The dispatcher's completion log\<close>

text \<open>
  Claim C4 at a realm\_export event whose status record is FAILED: \<^verbatim>\<open>consume\<close>
  returns normally at line 161, and the trace holds no completion log line.
\<close>

theorem C4_no_completion_log_after_return:
  "fst (consume demo_env (export_job 6) demo_world) = Ok () \<and>
   filter is_completion_log (trace (snd (consume demo_env (export_job 6) demo_world))) = []"
  by (simp add: consume_export_job [OF demo_world_simps(1)] short_circuit demo_env_simps
      demo_world_simps demo_export_status is_completion_log_def)



subsection \<open>The retry policy of clear\_push\_device\_tokens\<close>

lemma failure_processor_logs:
  "event ''user_profile_id'' = Some uid \<Longrightarrow>
   failure_processor event w =
     (Ok (), w\<lparr>trace := trace w @
        [Log WARNING ''Maximum retries exceeded for trigger:%s event:clear_push_device_tokens'' [AVal uid]]\<rparr>)"
  by (simp add: failure_processor_def prog_defs)

lemma retry_env_simps:
  "raises retry_later_env (ClearPushDeviceTokens (VInt 1)) = Some PushNotificationBouncerRetryLaterError"
  "MAX_REQUEST_RETRIES retry_later_env = 3"
  "queue_name retry_later_env = ''deferred_work''"
  "raises broken_bouncer_env (ClearPushDeviceTokens (VInt 1)) = Some (Exception ''connection refused'')"
  by (simp_all add: retry_later_env_def broken_bouncer_env_def demo_env_def)

lemma demo_world_tries: "failed_tries demo_world = 0"
  by (simp add: demo_world_def)

text \<open>
  Claim C8. For every clear\_push\_device\_tokens event: when clearing the tokens raises the
  transient \<open>PushNotificationBouncerRetryLaterError\<close>, the same event is submitted to the
  worker's queue again as long as the attempt count is below the maximum, and when the
  maximum is reached the terminal-failure handler is applied once to the event, which only
  logs a warning and does not raise; any other exception is not caught and is the outcome
  of the handler.
\<close>

theorem C8_retry_policy:
  assumes "event ''user_profile_id'' = Some uid"
  shows "case clear_push_device_tokens en event w of
     (r, w') \<Rightarrow>
       (raises en (ClearPushDeviceTokens uid) = Some PushNotificationBouncerRetryLaterError
          \<and> Suc (failed_tries w) < MAX_REQUEST_RETRIES en \<longrightarrow>
            r = Ok ()
          \<and> new_trace w w' =
              [Log INFO ''Clearing push device tokens for user_profile_id %s'' [AVal uid],
               Called (ClearPushDeviceTokens uid),
               Publish (queue_name en) event])
     \<and> (raises en (ClearPushDeviceTokens uid) = Some PushNotificationBouncerRetryLaterError
          \<and> MAX_REQUEST_RETRIES en \<le> Suc (failed_tries w) \<longrightarrow>
            (r, w') = failure_processor event
               (w\<lparr>failed_tries := Suc (failed_tries w),
                  trace := trace w @
                    [Log INFO ''Clearing push device tokens for user_profile_id %s'' [AVal uid],
                     Called (ClearPushDeviceTokens uid)]\<rparr>)
          \<and> r = Ok ()
          \<and> new_trace w w' =
              [Log INFO ''Clearing push device tokens for user_profile_id %s'' [AVal uid],
               Called (ClearPushDeviceTokens uid),
               Log WARNING ''Maximum retries exceeded for trigger:%s event:clear_push_device_tokens''
                 [AVal uid]])
     \<and> (\<forall>e. raises en (ClearPushDeviceTokens uid) = Some e
              \<and> e \<noteq> PushNotificationBouncerRetryLaterError \<longrightarrow> r = Raise e)"
  using assms
  by (auto simp add: clear_push_device_tokens_def retry_event_def failure_processor_def prog_defs
      split: option.splits exn.splits)


theorem C8_retry_policy_witness:
  "clear_job ''user_profile_id'' = Some (VInt 1)
   \<and> fst (clear_push_device_tokens retry_later_env clear_job demo_world) = Ok ()
   \<and> new_trace demo_world (snd (clear_push_device_tokens retry_later_env clear_job demo_world)) =
        [Log INFO ''Clearing push device tokens for user_profile_id %s'' [AVal (VInt 1)],
         Called (ClearPushDeviceTokens (VInt 1)),
         Publish ''deferred_work'' clear_job]
   \<and> fst (clear_push_device_tokens retry_later_env clear_job (demo_world\<lparr>failed_tries := 2\<rparr>)) = Ok ()
   \<and> new_trace (demo_world\<lparr>failed_tries := 2\<rparr>)
        (snd (clear_push_device_tokens retry_later_env clear_job (demo_world\<lparr>failed_tries := 2\<rparr>))) =
        [Log INFO ''Clearing push device tokens for user_profile_id %s'' [AVal (VInt 1)],
         Called (ClearPushDeviceTokens (VInt 1)),
         Log WARNING ''Maximum retries exceeded for trigger:%s event:clear_push_device_tokens''
           [AVal (VInt 1)]]
   \<and> fst (clear_push_device_tokens broken_bouncer_env clear_job demo_world)
        = Raise (Exception ''connection refused'')"
proof -
  have uid: "clear_job ''user_profile_id'' = Some (VInt 1)"
    by (simp add: clear_job_def)
  show ?thesis
    using C8_retry_policy [where event = clear_job and uid = "VInt 1" and en = retry_later_env and w = demo_world]
      C8_retry_policy [where event = clear_job and uid = "VInt 1" and en = retry_later_env
        and w = "demo_world\<lparr>failed_tries := 2\<rparr>"]
      C8_retry_policy [where event = clear_job and uid = "VInt 1" and en = broken_bouncer_env and w = demo_world]
    by (simp add: uid retry_env_simps demo_world_tries split: prod.splits)
qed


subsection \<open>Dispatch by type\<close>

lemma consume_falls_through:
  assumes "event ''type'' = Some ty"
    and "handler en event (time_time en (ticks w)) ty (tick w) = (Ok Continue, v)"
  shows "consume en event w = completed en ty w v"
  using assms by (simp add: consume_def completed_def prog_defs tick_def)

lemma consume_returns:
  assumes "event ''type'' = Some ty"
    and "handler en event (time_time en (ticks w)) ty (tick w) = (Ok Return, v)"
  shows "consume en event w = (Ok (), v)"
  using assms by (simp add: consume_def prog_defs tick_def)

lemma consume_raises:
  assumes "event ''type'' = Some ty"
    and "handler en event (time_time en (ticks w)) ty (tick w) = (Raise e, v)"
  shows "consume en event w = (Raise e, v)"
  using assms by (simp add: consume_def prog_defs tick_def)

lemma consume_unit_handler:
  assumes ty: "event ''type'' = Some ty"
    and h: "\<And>start. handler en event start ty = falls_through (body en event)"
  shows "consume en event w =
     (case body en event (tick w) of
        (Ok u, w1) \<Rightarrow> completed en ty w w1
      | (Raise e, w1) \<Rightarrow> (Raise e, w1))"
proof (cases "body en event (tick w)")
  case (Pair r w1)
  show ?thesis
  proof (cases r)
    case (Ok u)
    with Pair have "handler en event (time_time en (ticks w)) ty (tick w) = (Ok Continue, w1)"
      by (simp add: h falls_through_def bnd_def ret_def)
    from consume_falls_through [where event = event and ty = ty and en = en and w = w
        and v = w1, OF ty this] Pair Ok show ?thesis
      by simp
  next
    case (Raise e)
    with Pair have "handler en event (time_time en (ticks w)) ty (tick w) = (Raise e, w1)"
      by (simp add: h falls_through_def bnd_def)
    from consume_raises [where event = event and ty = ty and en = en and w = w
        and v = w1 and e = e, OF ty this] Pair Raise show ?thesis
      by simp
  qed
qed

text \<open>
  Claim C9. The dispatcher routes an event by its \<open>type\<close> field to exactly one branch:
  the type names of the branches are pairwise distinct; for a type of the table,
  \<^verbatim>\<open>consume\<close> reads the clock, runs the body the table gives for that type and no other,
  and, when the body has not raised, reads the clock again and logs the completion line;
  for realm\_export it runs that handler, which may return before the completion line; an
  event whose type matches no branch changes nothing in the world except for the two clock
  readings and the one completion log line.
\<close>

theorem C9_dispatch_by_type:
  assumes "event ''type'' = Some ty"
  shows "distinct (''realm_export'' # map fst unit_handlers)
   \<and> (\<forall>name body. ty = VStr name \<and> map_of unit_handlers name = Some body \<longrightarrow>
         consume en event w =
           (case body en event (tick w) of
              (Ok u, w1) \<Rightarrow> completed en ty w w1
            | (Raise e, w1) \<Rightarrow> (Raise e, w1)))
   \<and> (ty = VStr ''realm_export'' \<longrightarrow>
         consume en event w =
           (case realm_export en event (time_time en (ticks w)) (tick w) of
              (Ok Continue, w1) \<Rightarrow> completed en ty w w1
            | (Ok Return, w1) \<Rightarrow> (Ok (), w1)
            | (Raise e, w1) \<Rightarrow> (Raise e, w1)))
   \<and> (ty \<notin> VStr ` set (''realm_export'' # map fst unit_handlers) \<longrightarrow>
         consume en event w = completed en ty w (tick w))"
proof (intro conjI allI impI)
  show "distinct (''realm_export'' # map fst unit_handlers)"
    by (simp add: unit_handlers_def)
next
  fix name body
  assume a: "ty = VStr name \<and> map_of unit_handlers name = Some body"
  then have "\<And>start. handler en event start ty = falls_through (body en event)"
    by (auto simp add: unit_handlers_def handler_def split: if_splits)
  from consume_unit_handler [where body = body and en = en and event = event and ty = ty
      and w = w, OF assms this]
  show "consume en event w =
           (case body en event (tick w) of
              (Ok u, w1) \<Rightarrow> completed en ty w w1
            | (Raise e, w1) \<Rightarrow> (Raise e, w1))" .
next
  assume a: "ty = VStr ''realm_export''"
  then have h: "handler en event (time_time en (ticks w)) ty (tick w)
                  = realm_export en event (time_time en (ticks w)) (tick w)"
    by (simp add: handler_def)
  show "consume en event w =
           (case realm_export en event (time_time en (ticks w)) (tick w) of
              (Ok Continue, w1) \<Rightarrow> completed en ty w w1
            | (Ok Return, w1) \<Rightarrow> (Ok (), w1)
            | (Raise e, w1) \<Rightarrow> (Raise e, w1))"
  proof (cases "realm_export en event (time_time en (ticks w)) (tick w)")
    case (Pair r w1)
    show ?thesis
    proof (cases r)
      case (Ok fl)
      show ?thesis
      proof (cases fl)
        case Continue
        with consume_falls_through [where event = event and ty = ty and en = en and w = w
            and v = w1, OF assms] h Pair Ok show ?thesis
          by simp
      next
        case Return
        with consume_returns [where event = event and ty = ty and en = en and w = w
            and v = w1, OF assms] h Pair Ok show ?thesis
          by simp
      qed
    next
      case (Raise e)
      with consume_raises [where event = event and ty = ty and en = en and w = w
          and v = w1 and e = e, OF assms] h Pair show ?thesis
        by simp
    qed
  qed
next
  assume a: "ty \<notin> VStr ` set (''realm_export'' # map fst unit_handlers)"
  then have "handler en event (time_time en (ticks w)) ty (tick w) = (Ok Continue, tick w)"
    by (auto simp add: handler_def unit_handlers_def ret_def)
  from consume_falls_through [where event = event and ty = ty and en = en and w = w
      and v = "tick w", OF assms this]
  show "consume en event w = completed en ty w (tick w)" .
qed

theorem C9_dispatch_by_type_witness:
  "soft_job ''type'' = Some (VStr ''soft_reactivate'')
   \<and> map_of unit_handlers ''soft_reactivate'' = Some soft_reactivate
   \<and> consume demo_env soft_job demo_world =
       (Ok (), demo_world\<lparr>ticks := 2,
          trace := [Log INFO ''Starting soft reactivation for user_profile_id %s'' [AVal (VInt 1)],
                    Called (ReactivateUserIfSoftDeactivated 1),
                    Log INFO ''deferred_work processed %s event (%dms)''
                      [AVal (VStr ''soft_reactivate''), AInt 250]]\<rparr>)
   \<and> emoji_job ''type'' = Some (VStr ''reupload_realm_emoji'')
   \<and> map_of unit_handlers ''reupload_realm_emoji'' = Some reupload_realm_emoji
   \<and> consume demo_env emoji_job demo_world =
       (Ok (), demo_world\<lparr>ticks := 2,
          trace := [Log INFO ''Processing reupload_realm_emoji event for realm %s'' [AInt 2],
                    Called (HandleReuploadEmojisEvent 2),
                    Log INFO ''deferred_work processed %s event (%dms)''
                      [AVal (VStr ''reupload_realm_emoji''), AInt 250]]\<rparr>)
   \<and> unknown_job ''type'' = Some (VStr ''rebuild_search_index'')
   \<and> VStr ''rebuild_search_index'' \<notin> VStr ` set (''realm_export'' # map fst unit_handlers)
   \<and> consume demo_env unknown_job demo_world =
       (Ok (), demo_world\<lparr>ticks := 2,
          trace := [Log INFO ''deferred_work processed %s event (%dms)''
                      [AVal (VStr ''rebuild_search_index''), AInt 250]]\<rparr>)"
proof -
  have a: "soft_job ''type'' = Some (VStr ''soft_reactivate'')"
    "emoji_job ''type'' = Some (VStr ''reupload_realm_emoji'')"
    "unknown_job ''type'' = Some (VStr ''rebuild_search_index'')"
    by (simp_all add: soft_job_def emoji_job_def unknown_job_def)
  have b: "map_of unit_handlers ''soft_reactivate'' = Some soft_reactivate"
    "map_of unit_handlers ''reupload_realm_emoji'' = Some reupload_realm_emoji"
    "VStr ''rebuild_search_index'' \<notin> VStr ` set (''realm_export'' # map fst unit_handlers)"
    by (auto simp add: unit_handlers_def)
  have soft: "soft_reactivate demo_env soft_job (tick demo_world) =
     (Ok (), demo_world\<lparr>ticks := 1,
        trace := [Log INFO ''Starting soft reactivation for user_profile_id %s'' [AVal (VInt 1)],
                  Called (ReactivateUserIfSoftDeactivated 1)]\<rparr>)"
    by (simp add: soft_reactivate_def soft_job_def prog_defs tick_def demo_env_simps
        demo_world_simps demo_user_def)
  have emoji: "reupload_realm_emoji demo_env emoji_job (tick demo_world) =
     (Ok (), demo_world\<lparr>ticks := 1,
        trace := [Log INFO ''Processing reupload_realm_emoji event for realm %s'' [AInt 2],
                  Called (HandleReuploadEmojisEvent 2)]\<rparr>)"
    by (simp add: reupload_realm_emoji_def emoji_job_def prog_defs tick_def demo_env_def
        demo_world_simps demo_realm_def)
  note c = C9_dispatch_by_type [where event = soft_job and ty = "VStr ''soft_reactivate''"
      and en = demo_env and w = demo_world, OF a(1)]
    C9_dispatch_by_type [where event = emoji_job and ty = "VStr ''reupload_realm_emoji''"
      and en = demo_env and w = demo_world, OF a(2)]
    C9_dispatch_by_type [where event = unknown_job and ty = "VStr ''rebuild_search_index''"
      and en = demo_env and w = demo_world, OF a(3)]
  from c(1) b(1) have 1: "consume demo_env soft_job demo_world =
      (case soft_reactivate demo_env soft_job (tick demo_world) of
         (Ok u, w1) \<Rightarrow> completed demo_env (VStr ''soft_reactivate'') demo_world w1
       | (Raise e, w1) \<Rightarrow> (Raise e, w1))"
    by blast
  from c(2) b(2) have 2: "consume demo_env emoji_job demo_world =
      (case reupload_realm_emoji demo_env emoji_job (tick demo_world) of
         (Ok u, w1) \<Rightarrow> completed demo_env (VStr ''reupload_realm_emoji'') demo_world w1
       | (Raise e, w1) \<Rightarrow> (Raise e, w1))"
    by blast
  from c(3) b(3) have 3: "consume demo_env unknown_job demo_world =
      completed demo_env (VStr ''rebuild_search_index'') demo_world (tick demo_world)"
    by blast
  show ?thesis
    unfolding 1 2 3 soft emoji
    by (simp add: a b(1,2) completed_def tick_def demo_env_simps demo_world_simps percent_d_def
        unit_handlers_def)
qed

subsection \<open>The batch engine\<close>

lemma hd_all_batches:
  "all_batches ms rlm rid c \<noteq> [] \<and> hd (all_batches ms rlm rid c) = (c, select_batch ms rlm rid c)"
  by (cases "length (select_batch ms rlm rid c) < batch_size")
    (simp_all add: all_batches_short all_batches_full)

lemma all_batches_above:
  assumes "(c', ids) \<in> set (all_batches ms rlm rid c)" and "i \<in> set ids"
  shows "c < i"
proof -
  from all_batches_cursors [of ms rlm rid c] assms(1) have "c \<le> c'"
    by force
  moreover from all_batches_select [OF assms(1)] assms(2) have "c' < i"
    by (simp add: select_batch_above)
  ultimately show ?thesis by simp
qed

lemma run_post_prefix:
  assumes "run_post event ms rlm rid c w w'"
  shows "marked (new_trace w w') \<noteq> []"
    and "hd (marked (new_trace w w')) = (c, select_batch ms rlm rid c)"
    and "set (marked (new_trace w w')) \<subseteq> set (all_batches ms rlm rid c)"
    and "publishes (new_trace w w') =
           (if length (snd (last (marked (new_trace w w')))) = batch_size
            then [(''deferred_work'',
                   event(''min_id'' \<mapsto> VInt (last (snd (last (marked (new_trace w w')))))))]
            else [])"
proof -
  from assms obtain new pre where tr: "trace w' = trace w @ new" and pre: "pre \<noteq> []" "marked new = pre"
    and alt: "publishes new = []
            \<and> all_batches ms rlm rid c = pre
            \<and> length (snd (last pre)) < batch_size
          \<or> publishes new = [(''deferred_work'', event(''min_id'' \<mapsto> VInt (last (snd (last pre)))))]
            \<and> all_batches ms rlm rid c = pre @ all_batches ms rlm rid (last (snd (last pre)))
            \<and> length (snd (last pre)) = batch_size
            \<and> remaining ms rlm rid (last (snd (last pre))) < remaining ms rlm rid c"
    unfolding run_post_def by blast
  have nt: "new_trace w w' = new"
    using tr by simp
  show "marked (new_trace w w') \<noteq> []"
    by (simp add: nt pre)
  from alt have "\<exists>rest. all_batches ms rlm rid c = pre @ rest"
    by auto
  then obtain rest where ab: "all_batches ms rlm rid c = pre @ rest" ..
  from hd_all_batches [of ms rlm rid c] pre(1)
  show "hd (marked (new_trace w w')) = (c, select_batch ms rlm rid c)"
    by (simp add: nt pre ab)
  show "set (marked (new_trace w w')) \<subseteq> set (all_batches ms rlm rid c)"
    by (simp add: nt pre ab)
  from alt show "publishes (new_trace w w') =
           (if length (snd (last (marked (new_trace w w')))) = batch_size
            then [(''deferred_work'',
                   event(''min_id'' \<mapsto> VInt (last (snd (last (marked (new_trace w w')))))))]
            else [])"
    by (auto simp add: nt pre)
qed

lemma last_take_nth:
  "0 < n \<Longrightarrow> n \<le> length xs \<Longrightarrow> last (take n xs) = xs ! (n - 1)"
  by (cases "take n xs = []") (auto simp add: last_conv_nth min_def)

lemma handler_short:
  assumes res: "resolve en event = Some (recipient, stream, rid, c)"
    and short: "length (pending (messages w) (stream_realm_id stream) rid c) < batch_size"
  shows "fst (mark_stream_messages_as_read_for_everyone en event w) = Ok ()"
    and "messages (snd (mark_stream_messages_as_read_for_everyone en event w)) = messages w"
    and "trace (snd (mark_stream_messages_as_read_for_everyone en event w)) = trace w @
       [Log INFO ''Marking messages as read for all users, stream_recipient_id %s'' [AVal recipient],
        Marked c (pending (messages w) (stream_realm_id stream) rid c),
        Log INFO ''Marked %s messages as read for all users, stream_recipient_id %s''
          [AInt (int (length (pending (messages w) (stream_realm_id stream) rid c))), AVal recipient]]"
    and "user_messages (snd (mark_stream_messages_as_read_for_everyone en event w))
           = mark_read en (pending (messages w) (stream_realm_id stream) rid c) (user_messages w)"
proof -
  let ?rlm = "stream_realm_id stream"
  let ?p = "pending (messages w) ?rlm rid c"
  let ?w0 = "w\<lparr>trace := trace w @ [Log INFO
                  ''Marking messages as read for all users, stream_recipient_id %s'' [AVal recipient]],
                ticks := Suc (ticks w)\<rparr>"
  have b: "select_batch (messages w) ?rlm rid c = ?p"
    using short by (simp add: select_batch_pending)
  have "length (select_batch (messages ?w0) ?rlm rid c) < batch_size"
    using short by (simp add: b)
  from mark_loop_short [OF this, of en event "perf_counter en (ticks w)" 0]
  have "mark_loop en event ?rlm rid (perf_counter en (ticks w)) c 0 ?w0
          = (Ok (length ?p), commit_batch en c ?p ?w0)"
    by (simp add: b)
  from handler_resolved [OF res this]
  show "fst (mark_stream_messages_as_read_for_everyone en event w) = Ok ()"
    and "messages (snd (mark_stream_messages_as_read_for_everyone en event w)) = messages w"
    and "trace (snd (mark_stream_messages_as_read_for_everyone en event w)) = trace w @
       [Log INFO ''Marking messages as read for all users, stream_recipient_id %s'' [AVal recipient],
        Marked c ?p,
        Log INFO ''Marked %s messages as read for all users, stream_recipient_id %s''
          [AInt (int (length ?p)), AVal recipient]]"
    and "user_messages (snd (mark_stream_messages_as_read_for_everyone en event w))
           = mark_read en ?p (user_messages w)"
    by (simp_all add: commit_batch_def)
qed

lemma handler_two_batches:
  assumes res: "resolve en event = Some (recipient, stream, rid, c)"
    and d: "distinct (map msg_id (messages w))"
    and len: "2 * batch_size \<le> length (pending (messages w) (stream_realm_id stream) rid c)"
    and t1: "\<not> perf_counter en (Suc (ticks w)) - perf_counter en (ticks w) > 30"
    and t2: "perf_counter en (Suc (Suc (ticks w))) - perf_counter en (ticks w) > 30"
  shows "fst (mark_stream_messages_as_read_for_everyone en event w) = Ok ()"
    and "messages (snd (mark_stream_messages_as_read_for_everyone en event w)) = messages w"
    and "trace (snd (mark_stream_messages_as_read_for_everyone en event w)) = trace w @
       [Log INFO ''Marking messages as read for all users, stream_recipient_id %s'' [AVal recipient],
        Marked c (take batch_size (pending (messages w) (stream_realm_id stream) rid c)),
        Marked (pending (messages w) (stream_realm_id stream) rid c ! (batch_size - 1))
          (take batch_size (drop batch_size (pending (messages w) (stream_realm_id stream) rid c))),
        Publish ''deferred_work''
          (event(''min_id'' \<mapsto>
             VInt (pending (messages w) (stream_realm_id stream) rid c ! (2 * batch_size - 1)))),
        Log INFO ''Marked %s messages as read for all users, stream_recipient_id %s''
          [AInt (int (2 * batch_size)), AVal recipient]]"
    and "pending (messages w) (stream_realm_id stream) rid
           (pending (messages w) (stream_realm_id stream) rid c ! (2 * batch_size - 1))
         = drop (2 * batch_size) (pending (messages w) (stream_realm_id stream) rid c)"
    and "user_messages (snd (mark_stream_messages_as_read_for_everyone en event w))
           = mark_read en
               (take batch_size (drop batch_size (pending (messages w) (stream_realm_id stream) rid c)))
               (mark_read en (take batch_size (pending (messages w) (stream_realm_id stream) rid c))
                  (user_messages w))"
proof -
  let ?rlm = "stream_realm_id stream"
  let ?ms = "messages w"
  let ?p = "pending ?ms ?rlm rid c"
  let ?l1 = "Log INFO ''Marking messages as read for all users, stream_recipient_id %s'' [AVal recipient]"
  let ?w0 = "w\<lparr>trace := trace w @ [?l1], ticks := Suc (ticks w)\<rparr>"
  define c1 where "c1 = ?p ! (batch_size - 1)"
  define c2 where "c2 = ?p ! (2 * batch_size - 1)"
  define st where "st = perf_counter en (ticks w)"
  have bs: "0 < batch_size" by (simp add: batch_size_def)
  have b1: "select_batch ?ms ?rlm rid c = take batch_size ?p"
    by (rule select_batch_pending)
  have full1: "\<not> length (select_batch ?ms ?rlm rid c) < batch_size"
    using len by (simp add: b1)
  have l1: "last (select_batch ?ms ?rlm rid c) = c1"
    unfolding b1 c1_def using len bs by (intro last_take_nth) simp_all
  have p1: "pending ?ms ?rlm rid c1 = drop batch_size ?p"
    using next_pending(1) [OF d full1] by (simp add: l1)
  have b2: "select_batch ?ms ?rlm rid c1 = take batch_size (drop batch_size ?p)"
    by (simp add: select_batch_pending p1)
  have full2: "\<not> length (select_batch ?ms ?rlm rid c1) < batch_size"
    using len by (simp add: b2)
  have "last (take batch_size (drop batch_size ?p)) = drop batch_size ?p ! (batch_size - 1)"
    using len bs by (intro last_take_nth) simp_all
  also have "\<dots> = ?p ! (batch_size + (batch_size - 1))"
    using len by (intro nth_drop) simp
  also have "batch_size + (batch_size - 1) = 2 * batch_size - 1"
    using bs by arith
  also have "?p ! (2 * batch_size - 1) = c2"
    by (simp only: c2_def)
  finally have l2: "last (select_batch ?ms ?rlm rid c1) = c2"
    by (simp add: b2)
  have p2: "pending ?ms ?rlm rid c2 = drop (2 * batch_size) ?p"
    using next_pending(1) [OF d full2] by (simp add: l2 p1 mult_2)
  let ?w1 = "tick (commit_batch en c (take batch_size ?p) ?w0)"
  have w1: "messages ?w1 = ?ms" "ticks ?w1 = Suc (Suc (ticks w))"
    "trace ?w1 = trace w @ [?l1, Marked c (take batch_size ?p)]"
    by (simp_all add: tick_def commit_batch_def)
  have step1: "mark_loop en event ?rlm rid st c 0 ?w0
                 = mark_loop en event ?rlm rid st c1 (0 + length (take batch_size ?p)) ?w1"
    using mark_loop_again [of ?w0 ?rlm rid c en st event 0] full1 t1
    by (simp add: b1 l1 [unfolded b1] st_def)
  let ?w2 = "(tick (commit_batch en c1 (take batch_size (drop batch_size ?p)) ?w1))
               \<lparr>trace := trace ?w1 @
                  [Marked c1 (take batch_size (drop batch_size ?p)),
                   Publish ''deferred_work'' (event(''min_id'' \<mapsto> VInt c2))]\<rparr>"
  have step2: "mark_loop en event ?rlm rid st c1 (0 + length (take batch_size ?p)) ?w1
                 = (Ok (0 + length (take batch_size ?p) + length (take batch_size (drop batch_size ?p))), ?w2)"
    using mark_loop_budget [of ?w1 ?rlm rid c1 en st event "0 + length (take batch_size ?p)"] full2 t2
    unfolding w1(1,2) b2 l2 [unfolded b2] st_def by simp
  have tot: "0 + length (take batch_size ?p) + length (take batch_size (drop batch_size ?p)) = 2 * batch_size"
    using len by simp
  have "mark_loop en event ?rlm rid (perf_counter en (ticks w)) c 0 ?w0 = (Ok (2 * batch_size), ?w2)"
    using step1 step2 tot by (simp add: st_def)
  note run = handler_resolved [OF res this]
  have tr2: "trace ?w2 = trace w @ [?l1, Marked c (take batch_size ?p),
               Marked c1 (take batch_size (drop batch_size ?p)),
               Publish ''deferred_work'' (event(''min_id'' \<mapsto> VInt c2))]"
    by (simp add: w1(3))
  have ms2: "messages ?w2 = messages w"
    by (simp add: tick_def commit_batch_def)
  show "fst (mark_stream_messages_as_read_for_everyone en event w) = Ok ()"
    by (simp add: run)
  show "messages (snd (mark_stream_messages_as_read_for_everyone en event w)) = messages w"
    unfolding run snd_conv using ms2 by simp
  show "user_messages (snd (mark_stream_messages_as_read_for_everyone en event w))
           = mark_read en (take batch_size (drop batch_size ?p))
               (mark_read en (take batch_size ?p) (user_messages w))"
    unfolding run snd_conv by (simp add: tick_def commit_batch_def)
  have "trace (snd (mark_stream_messages_as_read_for_everyone en event w)) = trace w @
       [?l1,
        Marked c (take batch_size ?p),
        Marked c1 (take batch_size (drop batch_size ?p)),
        Publish ''deferred_work'' (event(''min_id'' \<mapsto> VInt c2)),
        Log INFO ''Marked %s messages as read for all users, stream_recipient_id %s''
          [AInt (int (2 * batch_size)), AVal recipient]]"
    unfolding run snd_conv using tr2 by simp
  then show "trace (snd (mark_stream_messages_as_read_for_everyone en event w)) = trace w @
       [?l1,
        Marked c (take batch_size ?p),
        Marked (?p ! (batch_size - 1)) (take batch_size (drop batch_size ?p)),
        Publish ''deferred_work'' (event(''min_id'' \<mapsto> VInt (?p ! (2 * batch_size - 1)))),
        Log INFO ''Marked %s messages as read for all users, stream_recipient_id %s''
          [AInt (int (2 * batch_size)), AVal recipient]]"
    unfolding c1_def c2_def .
  from p2 show "pending ?ms ?rlm rid (?p ! (2 * batch_size - 1)) = drop (2 * batch_size) ?p"
    unfolding c2_def .
qed


lemma demo_resolve: "resolve demo_env read_job = Some (VInt 9, \<lparr>stream_realm_id = 2\<rparr>, 9, 0)"
  by (simp add: resolve_def demo_env_def read_job_def get_default_def int_val_def)

lemma demo_distinct: "distinct (map msg_id (messages demo_world))"
  by (simp add: demo_world_def demo_messages_def comp_def)

lemma demo_pending: "pending (messages demo_world) 2 9 0 = [1..120]"
proof -
  have "filter (\<lambda>i. (0::int) < i) [1..120] = [1..120]"
    by (simp add: filter_id_conv)
  then show ?thesis
    by (simp add: pending_def demo_world_def demo_messages_def in_stream_def filter_map comp_def
        sorted_sort_id)
qed

lemma demo_pending_above: "pending (messages demo_world) 2 9 100 = [101..120]"
proof -
  have "filter (\<lambda>i. (100::int) < i) [1..120] = [101..120]"
    by code_simp
  then show ?thesis
    by (simp add: pending_def demo_world_def demo_messages_def in_stream_def filter_map comp_def
        sorted_sort_id)
qed

lemma demo_clock: "perf_counter demo_env n = 20 * real n" "ticks demo_world = 0"
  by (simp_all add: demo_env_def demo_world_def)

lemma demo_pages:
  "take 50 [1..120::int] = [1..50]" "take 50 (drop 50 [1..120::int]) = [51..100]"
  "drop 100 [1..120::int] = [101..120]" "[1..120::int] ! 49 = 50" "[1..120::int] ! 99 = 100"
  by code_simp+

lemma demo_first_run:
  "marked (new_trace demo_world (snd (mark_stream_messages_as_read_for_everyone demo_env read_job demo_world)))
     = [(0, [1..50]), (50, [51..100])]"
  "publishes (new_trace demo_world (snd (mark_stream_messages_as_read_for_everyone demo_env read_job demo_world)))
     = [(''deferred_work'', read_job(''min_id'' \<mapsto> VInt 100))]"
proof -
  have len: "2 * batch_size \<le> length (pending (messages demo_world) (stream_realm_id \<lparr>stream_realm_id = 2\<rparr>) 9 0)"
    by (simp add: demo_pending batch_size_def)
  have t: "\<not> perf_counter demo_env (Suc (ticks demo_world)) - perf_counter demo_env (ticks demo_world) > 30"
    "perf_counter demo_env (Suc (Suc (ticks demo_world))) - perf_counter demo_env (ticks demo_world) > 30"
    by (simp_all add: demo_clock)
  note run = handler_two_batches(3) [OF demo_resolve demo_distinct len t]
  show "marked (new_trace demo_world (snd (mark_stream_messages_as_read_for_everyone demo_env read_job demo_world)))
     = [(0, [1..50]), (50, [51..100])]"
    using run by (simp add: demo_pending batch_size_def demo_pages)
  show "publishes (new_trace demo_world (snd (mark_stream_messages_as_read_for_everyone demo_env read_job demo_world)))
     = [(''deferred_work'', read_job(''min_id'' \<mapsto> VInt 100))]"
    using run by (simp add: demo_pending batch_size_def demo_pages)
qed

text \<open>
  Claim C5. A run of mark\_stream\_messages\_as\_read\_for\_everyone over a target set of 120
  records, with batch size 50, whose time budget is not exceeded at the check after the
  first batch and is exceeded at the check after the second: the run commits exactly two
  batches of 50, the second ending at the 100th record of the target set, that is, it
  sets the read flag on the unread \<^verbatim>\<open>UserMessage\<close> rows of the first 50 and then of the
  next 50 records and on no other row; it publishes exactly one continuation event, with
  \<open>min_id\<close> set to the key of the 100th record. The handler run on that event commits one
  batch with the remaining 20 records, setting the read flag on their unread rows, and
  publishes nothing. The two clock conditions compare exact differences of the readings;
  the source computes them in floating point.
\<close>

theorem C5_two_batches_then_continuation:
  assumes "resolve en event = Some (recipient, stream, rid, c)"
    and "distinct (map msg_id (messages w))"
    and "length (pending (messages w) (stream_realm_id stream) rid c) = 120"
    and "\<not> perf_counter en (Suc (ticks w)) - perf_counter en (ticks w) > 30"
    and "perf_counter en (Suc (Suc (ticks w))) - perf_counter en (ticks w) > 30"
  shows "let p = pending (messages w) (stream_realm_id stream) rid c;
             w1 = snd (mark_stream_messages_as_read_for_everyone en event w);
             continuation = event(''min_id'' \<mapsto> VInt (p ! 99));
             w2 = snd (mark_stream_messages_as_read_for_everyone en continuation w1)
         in marked (new_trace w w1) = [(c, take 50 p), (p ! 49, take 50 (drop 50 p))]
          \<and> length (take 50 p) = 50 \<and> length (take 50 (drop 50 p)) = 50
          \<and> publishes (new_trace w w1) = [(''deferred_work'', continuation)]
          \<and> user_messages w1 =
                mark_read en (take 50 (drop 50 p)) (mark_read en (take 50 p) (user_messages w))
          \<and> marked (new_trace w1 w2) = [(p ! 99, drop 100 p)]
          \<and> length (drop 100 p) = 20
          \<and> publishes (new_trace w1 w2) = []
          \<and> user_messages w2 = mark_read en (drop 100 p) (user_messages w1)"
proof -
  let ?rlm = "stream_realm_id stream"
  let ?p = "pending (messages w) ?rlm rid c"
  let ?w1 = "snd (mark_stream_messages_as_read_for_everyone en event w)"
  let ?ev = "event(''min_id'' \<mapsto> VInt (?p ! 99))"
  let ?w2 = "snd (mark_stream_messages_as_read_for_everyone en ?ev ?w1)"
  have len: "2 * batch_size \<le> length ?p"
    using assms(3) by (simp add: batch_size_def)
  note first = handler_two_batches [OF assms(1,2) len assms(4,5)]
  have tr1: "new_trace w ?w1 =
       [Log INFO ''Marking messages as read for all users, stream_recipient_id %s'' [AVal recipient],
        Marked c (take 50 ?p), Marked (?p ! 49) (take 50 (drop 50 ?p)),
        Publish ''deferred_work'' ?ev,
        Log INFO ''Marked %s messages as read for all users, stream_recipient_id %s''
          [AInt 100, AVal recipient]]"
    using first(3) by (simp add: batch_size_def)
  have rest: "pending (messages ?w1) ?rlm rid (?p ! 99) = drop 100 ?p"
    using first(2,4) by (simp add: batch_size_def)
  then have short: "length (pending (messages ?w1) ?rlm rid (?p ! 99)) < batch_size"
    using assms(3) by (simp add: batch_size_def)
  note second = handler_short [OF resolve_continuation [OF assms(1)] short]
  have tr2: "new_trace ?w1 ?w2 =
       [Log INFO ''Marking messages as read for all users, stream_recipient_id %s'' [AVal recipient],
        Marked (?p ! 99) (drop 100 ?p),
        Log INFO ''Marked %s messages as read for all users, stream_recipient_id %s''
          [AInt 20, AVal recipient]]"
    using second(3) rest assms(3) by simp
  have um1: "user_messages ?w1 =
       mark_read en (take 50 (drop 50 ?p)) (mark_read en (take 50 ?p) (user_messages w))"
    using first(5) by (simp add: batch_size_def)
  have um2: "user_messages ?w2 = mark_read en (drop 100 ?p) (user_messages ?w1)"
    using second(4) rest by simp
  show ?thesis
    using assms(3) um1 um2 by (simp add: Let_def tr1 tr2)
qed

theorem C5_two_batches_then_continuation_witness:
  "resolve demo_env read_job = Some (VInt 9, \<lparr>stream_realm_id = 2\<rparr>, 9, 0)
   \<and> distinct (map msg_id (messages read_world))
   \<and> length (pending (messages read_world) 2 9 0) = 120
   \<and> \<not> perf_counter demo_env (Suc (ticks read_world)) - perf_counter demo_env (ticks read_world) > 30
   \<and> perf_counter demo_env (Suc (Suc (ticks read_world))) - perf_counter demo_env (ticks read_world) > 30
   \<and> (let w1 = snd (mark_stream_messages_as_read_for_everyone demo_env read_job read_world);
           continuation = read_job(''min_id'' \<mapsto> VInt 100);
           w2 = snd (mark_stream_messages_as_read_for_everyone demo_env continuation w1)
       in marked (new_trace read_world w1) = [(0, [1..50]), (50, [51..100])]
        \<and> publishes (new_trace read_world w1) = [(''deferred_work'', continuation)]
        \<and> user_messages w1 =
             [\<lparr>um_message_id = 1, um_flags = 1\<rparr>,
              \<lparr>um_message_id = 2, um_flags = 1\<rparr>,
              \<lparr>um_message_id = 60, um_flags = 1\<rparr>,
              \<lparr>um_message_id = 110, um_flags = 2\<rparr>,
              \<lparr>um_message_id = 121, um_flags = 0\<rparr>]
        \<and> marked (new_trace w1 w2) = [(100, [101..120])]
        \<and> publishes (new_trace w1 w2) = []
        \<and> user_messages w2 =
             [\<lparr>um_message_id = 1, um_flags = 1\<rparr>,
              \<lparr>um_message_id = 2, um_flags = 1\<rparr>,
              \<lparr>um_message_id = 60, um_flags = 1\<rparr>,
              \<lparr>um_message_id = 110, um_flags = 3\<rparr>,
              \<lparr>um_message_id = 121, um_flags = 0\<rparr>])"
proof -
  have w: "messages read_world = messages demo_world" "ticks read_world = 0"
    by (simp_all add: read_world_def demo_world_def)
  have d: "distinct (map msg_id (messages read_world))"
    by (simp add: w demo_distinct)
  have len: "length (pending (messages read_world) (stream_realm_id \<lparr>stream_realm_id = 2\<rparr>) 9 0) = 120"
    by (simp add: w demo_pending)
  have t: "\<not> perf_counter demo_env (Suc (ticks read_world)) - perf_counter demo_env (ticks read_world) > 30"
    "perf_counter demo_env (Suc (Suc (ticks read_world))) - perf_counter demo_env (ticks read_world) > 30"
    by (simp_all add: w demo_clock)
  let ?p = "pending (messages read_world) (stream_realm_id \<lparr>stream_realm_id = 2\<rparr>) 9 0"
  let ?w1 = "snd (mark_stream_messages_as_read_for_everyone demo_env read_job read_world)"
  let ?w2 = "snd (mark_stream_messages_as_read_for_everyone demo_env
                    (read_job(''min_id'' \<mapsto> VInt 100)) ?w1)"
  have p: "?p = [1..120]" and p': "pending (messages read_world) 2 9 0 = [1..120]"
    by (simp_all add: w demo_pending)
  note run = C5_two_batches_then_continuation [OF demo_resolve d len t]
  from run have "user_messages ?w1 =
      mark_read demo_env (take 50 (drop 50 ?p)) (mark_read demo_env (take 50 ?p) (user_messages read_world))"
    by (simp add: Let_def)
  also have "\<dots> =
             [\<lparr>um_message_id = 1, um_flags = 1\<rparr>,
              \<lparr>um_message_id = 2, um_flags = 1\<rparr>,
              \<lparr>um_message_id = 60, um_flags = 1\<rparr>,
              \<lparr>um_message_id = 110, um_flags = 2\<rparr>,
              \<lparr>um_message_id = 121, um_flags = 0\<rparr>]"
    unfolding p demo_pages by (simp add: mark_read_def read_world_def demo_env_def)
  finally have um1: "user_messages ?w1 =
             [\<lparr>um_message_id = 1, um_flags = 1\<rparr>,
              \<lparr>um_message_id = 2, um_flags = 1\<rparr>,
              \<lparr>um_message_id = 60, um_flags = 1\<rparr>,
              \<lparr>um_message_id = 110, um_flags = 2\<rparr>,
              \<lparr>um_message_id = 121, um_flags = 0\<rparr>]" .
  from run have "user_messages ?w2 = mark_read demo_env (drop 100 ?p) (user_messages ?w1)"
    by (simp add: Let_def p' demo_pages)
  also have "\<dots> =
             [\<lparr>um_message_id = 1, um_flags = 1\<rparr>,
              \<lparr>um_message_id = 2, um_flags = 1\<rparr>,
              \<lparr>um_message_id = 60, um_flags = 1\<rparr>,
              \<lparr>um_message_id = 110, um_flags = 3\<rparr>,
              \<lparr>um_message_id = 121, um_flags = 0\<rparr>]"
    unfolding p demo_pages um1 by (simp add: mark_read_def demo_env_def)
  finally have um2: "user_messages ?w2 =
             [\<lparr>um_message_id = 1, um_flags = 1\<rparr>,
              \<lparr>um_message_id = 2, um_flags = 1\<rparr>,
              \<lparr>um_message_id = 60, um_flags = 1\<rparr>,
              \<lparr>um_message_id = 110, um_flags = 3\<rparr>,
              \<lparr>um_message_id = 121, um_flags = 0\<rparr>]" .
  from run len t
  show ?thesis
    by (simp add: Let_def demo_resolve demo_distinct w demo_pending demo_pages um1 um2)
qed


text \<open>
  Claim C6. A run of the batch loop stops on its time budget exactly when its last batch is
  full (a short batch ends the loop at line 94 before the clock is read). In that case
  the run publishes exactly one event, to the queue \<^verbatim>\<open>deferred_work\<close>, which is the
  original event with \<open>min_id\<close> set to the cursor, the last key of the last batch; every
  other field is that of the original event. Otherwise it publishes nothing.
\<close>

theorem C6_continuation_event:
  assumes "resolve en event = Some (recipient, stream, rid, c)"
  shows "let w' = snd (mark_stream_messages_as_read_for_everyone en event w);
             B = marked (new_trace w w');
             cursor = last (snd (last B))
         in publishes (new_trace w w') =
              (if length (snd (last B)) = batch_size
               then [(''deferred_work'', event(''min_id'' \<mapsto> VInt cursor))] else [])
          \<and> (\<forall>(q, ev) \<in> set (publishes (new_trace w w')).
                ev ''min_id'' = Some (VInt cursor) \<and> (\<forall>k. k \<noteq> ''min_id'' \<longrightarrow> ev k = event k))"
  using run_post_prefix(4) [OF handler_post(2) [OF assms, of w]]
  by (simp add: Let_def)

theorem C6_continuation_event_witness:
  "resolve demo_env read_job = Some (VInt 9, \<lparr>stream_realm_id = 2\<rparr>, 9, 0)
   \<and> (let w' = snd (mark_stream_messages_as_read_for_everyone demo_env read_job demo_world)
       in marked (new_trace demo_world w') = [(0, [1..50]), (50, [51..100])]
        \<and> length (snd (last (marked (new_trace demo_world w')))) = batch_size
        \<and> publishes (new_trace demo_world w') = [(''deferred_work'', read_job(''min_id'' \<mapsto> VInt 100))])"
  using C6_continuation_event [OF demo_resolve, of demo_world]
  by (simp add: Let_def demo_resolve demo_first_run batch_size_def)


text \<open>
  Claim C7. For every continuation sequence of the batch engine on a message table with
  unique ids: the cursors of the successive batches are strictly increasing; each batch
  is the first \<open>batch_size\<close> ids of the target set above its cursor, in ascending order;
  and the batches of the whole sequence, one after the other, are the target set above
  the first cursor, each id once.
\<close>

theorem C7_cursor_monotone_and_cover:
  assumes "resolve en event = Some (recipient, stream, rid, c)"
    and "distinct (map msg_id (messages w))"
  shows "let B = marked (new_trace w (deliver en event w));
             ms = messages w;
             rlm = stream_realm_id stream
         in sorted_wrt (<) (map fst B)
          \<and> (\<forall>(c', ids) \<in> set B. ids = take batch_size (pending ms rlm rid c'))
          \<and> concat (map snd B) = pending ms rlm rid c
          \<and> distinct (concat (map snd B))"
proof -
  from deliver_run [OF assms(1), of w] obtain new where
    "trace (deliver en event w) = trace w @ new"
    "marked new = all_batches (messages w) (stream_realm_id stream) rid c"
    by blast
  then have B: "marked (new_trace w (deliver en event w))
                  = all_batches (messages w) (stream_realm_id stream) rid c"
    by simp
  have "\<forall>(c', ids) \<in> set (all_batches (messages w) (stream_realm_id stream) rid c).
          ids = take batch_size (pending (messages w) (stream_realm_id stream) rid c')"
    using all_batches_select by (fastforce simp add: select_batch_pending)
  then show ?thesis
    using all_batches_cursors [of "messages w" "stream_realm_id stream" rid c]
      concat_all_batches [OF assms(2)] distinct_pending [OF assms(2)]
    by (simp add: B Let_def)
qed


theorem C7_cursor_monotone_and_cover_witness:
  "resolve demo_env read_job = Some (VInt 9, \<lparr>stream_realm_id = 2\<rparr>, 9, 0)
   \<and> distinct (map msg_id (messages demo_world))
   \<and> (let B = marked (new_trace demo_world (deliver demo_env read_job demo_world))
       in sorted_wrt (<) (map fst B)
        \<and> concat (map snd B) = [1..120]
        \<and> distinct (concat (map snd B)))"
  using C7_cursor_monotone_and_cover [OF demo_resolve demo_distinct]
  by (simp add: Let_def demo_resolve demo_distinct demo_pending)


text \<open>
  Claim C10. When the event has no \<open>min_id\<close> field the run starts with cursor 0, so its
  first batch is the first \<open>batch_size\<close> ids of the target set above 0, which is the whole
  stream when ids are positive, as database keys are. When \<open>min_id\<close> is present the run
  starts with that cursor and every id it selects is greater.
\<close>

theorem C10_initial_cursor:
  assumes "event ''stream_recipient_id'' = Some recipient"
    and "get_stream en recipient = Inr stream"
    and "int_val en recipient = Inr rid"
    and "event ''min_id'' = None \<and> c = 0 \<or> event ''min_id'' = Some (VInt c)"
  shows "let B = marked (new_trace w (snd (mark_stream_messages_as_read_for_everyone en event w)));
             ms = messages w;
             rlm = stream_realm_id stream
         in B \<noteq> []
          \<and> hd B = (c, take batch_size (pending ms rlm rid c))
          \<and> (\<forall>(c', ids) \<in> set B. \<forall>i \<in> set ids. c < i)
          \<and> (c = 0 \<and> (\<forall>m \<in> set ms. 0 < msg_id m) \<longrightarrow>
                pending ms rlm rid c = sort (map msg_id (filter (in_stream rlm rid) ms)))"
proof -
  have res: "resolve en event = Some (recipient, stream, rid, c)"
    using assms by (auto simp add: resolve_def get_default_def int_val_def)
  note post = run_post_prefix [OF handler_post(2) [OF res, of w]]
  have "c = 0 \<and> (\<forall>m \<in> set (messages w). 0 < msg_id m) \<longrightarrow>
          pending (messages w) (stream_realm_id stream) rid c
            = sort (map msg_id (filter (in_stream (stream_realm_id stream) rid) (messages w)))"
    by (auto simp add: pending_def intro!: arg_cong [where f = sort] arg_cong [where f = "map msg_id"] filter_cong)
  moreover have "\<forall>(c', ids) \<in> set (marked (new_trace w (snd (mark_stream_messages_as_read_for_everyone en event w)))).
                   \<forall>i \<in> set ids. c < i"
    using post(3) all_batches_above by fastforce
  ultimately show ?thesis
    using post(1,2) by (simp add: Let_def select_batch_pending)
qed

theorem C10_initial_cursor_witness:
  "read_job ''stream_recipient_id'' = Some (VInt 9)
   \<and> get_stream demo_env (VInt 9) = Inr \<lparr>stream_realm_id = 2\<rparr>
   \<and> int_val demo_env (VInt 9) = Inr 9
   \<and> read_job ''min_id'' = None
   \<and> (read_job(''min_id'' \<mapsto> VInt 100)) ''min_id'' = Some (VInt 100)
   \<and> hd (marked (new_trace demo_world
            (snd (mark_stream_messages_as_read_for_everyone demo_env read_job demo_world))))
        = (0, [1..50])
   \<and> hd (marked (new_trace demo_world
            (snd (mark_stream_messages_as_read_for_everyone demo_env
                    (read_job(''min_id'' \<mapsto> VInt 100)) demo_world))))
        = (100, [101..120])
   \<and> pending (messages demo_world) 2 9 0
        = sort (map msg_id (filter (in_stream 2 9) (messages demo_world)))"
proof -
  have pos: "\<forall>m \<in> set (messages demo_world). 0 < msg_id m"
    by (auto simp add: demo_world_def demo_messages_def)
  have a: "read_job ''stream_recipient_id'' = Some (VInt 9)" "read_job ''min_id'' = None"
    "(read_job(''min_id'' \<mapsto> VInt 100)) ''stream_recipient_id'' = Some (VInt 9)"
    by (simp_all add: read_job_def)
  have b: "get_stream demo_env (VInt 9) = Inr \<lparr>stream_realm_id = 2\<rparr>" "int_val demo_env (VInt 9) = Inr 9"
    by (simp_all add: demo_env_def int_val_def)
  from C10_initial_cursor [where event = read_job and recipient = "VInt 9" and en = demo_env
      and stream = "\<lparr>stream_realm_id = 2\<rparr>" and rid = 9 and c = 0 and w = demo_world]
    C10_initial_cursor [where event = "read_job(''min_id'' \<mapsto> VInt 100)" and recipient = "VInt 9" and en = demo_env
      and stream = "\<lparr>stream_realm_id = 2\<rparr>" and rid = 9 and c = 100 and w = demo_world]
    pos
  show ?thesis
    by (simp add: a b Let_def demo_pending demo_pending_above batch_size_def demo_pages)
qed


end
